theory Spec2Isabelle
  imports Complex_Main
begin

section \<open>Data model (types.ts)\<close>

datatype AnswerKey = A | B | C | D

datatype Difficulty = Easy | Medium | Hard

text \<open>
  A value produced by \<open>JSON.parse\<close>. An object is the association list of its own properties
  (\<open>map_of\<close> reads a property); a number is the real it denotes.
\<close>

datatype json =
    JNull
  | JBool bool
  | JNum real
  | JStr string
  | JArr "json list"
  | JObj "(string \<times> json) list"

text \<open>
  \<open>TriviaQuestion\<close>: the three members the interface declares. The only producer in the
  sources, \<open>generateTriviaQuestion\<close>, returns the parsed body through the unchecked cast
  \<open>data as TriviaQuestion\<close> after testing the four options for truthiness only, so the
  \<open>options\<close> member is kept as the parsed value it is.
\<close>

record TriviaQuestion =
  question_text :: string
  options :: json
  correctAnswer :: AnswerKey

section \<open>The question source client (generateTriviaQuestion, unnamed/part\_000)\<close>

text \<open>What the JavaScript engine contributes: \<open>String(v)\<close> of a value that is not a string, and
  the message of the \<open>TypeError\<close> thrown when a property is read from \<open>null\<close>.\<close>

record engine =
  stringOf :: "json \<Rightarrow> string"
  nullRead :: "string \<Rightarrow> string"

text \<open>
  What the network did with the one request: \<open>fetch\<close> rejected with an error of the given
  message, or it resolved with a response. \<open>body\<close> is what \<open>response.json()\<close> settles with:
  \<open>Inr\<close> the parsed value, \<open>Inl\<close> the message of the error it rejects with.
\<close>

record response =
  ok :: bool
  status :: nat
  body :: "string + json"

datatype fetch_outcome = Rejected string | Responded response

definition digit :: "nat \<Rightarrow> char" where
  "digit n = ''0123456789'' ! n"

fun string_of_nat :: "nat \<Rightarrow> string" where
  "string_of_nat n =
     (if n < 10 then [digit n] else string_of_nat (n div 10) @ [digit (n mod 10)])"

text \<open>Reading a property of a value that is not \<open>null\<close>: \<open>None\<close> is \<open>undefined\<close>. Only the
  names \<open>error\<close>, \<open>question\<close>, \<open>options\<close>, \<open>correctAnswer\<close>, \<open>A\<close>..\<open>D\<close> are ever read, and
  only objects have such properties.\<close>

fun property :: "json \<Rightarrow> string \<Rightarrow> json option" where
  "property (JObj kvs) k = map_of kvs k"
| "property _ k = None"

fun truthy_json :: "json \<Rightarrow> bool" where
  "truthy_json JNull = False"
| "truthy_json (JBool b) = b"
| "truthy_json (JNum x) = (x \<noteq> 0)"
| "truthy_json (JStr s) = (s \<noteq> [])"
| "truthy_json (JArr _) = True"
| "truthy_json (JObj _) = True"

definition truthy_prop :: "json option \<Rightarrow> bool" where
  "truthy_prop v = (case v of None \<Rightarrow> False | Some x \<Rightarrow> truthy_json x)"

text \<open>The message of \<open>new Error(v)\<close>.\<close>

definition messageOf :: "engine \<Rightarrow> json \<Rightarrow> string" where
  "messageOf E v = (case v of JStr s \<Rightarrow> s | _ \<Rightarrow> stringOf E v)"

text \<open>\<open>typeof v === 'object'\<close> for a property value (\<open>typeof null\<close> is \<open>'object'\<close>).\<close>

definition typeof_object :: "json option \<Rightarrow> bool" where
  "typeof_object v =
     (case v of Some JNull \<Rightarrow> True | Some (JArr _) \<Rightarrow> True | Some (JObj _) \<Rightarrow> True | _ \<Rightarrow> False)"

definition answerKey_of :: "json option \<Rightarrow> AnswerKey option" where
  "answerKey_of v =
     (if v = Some (JStr ''A'') then Some A
      else if v = Some (JStr ''B'') then Some B
      else if v = Some (JStr ''C'') then Some C
      else if v = Some (JStr ''D'') then Some D
      else None)"

text \<open>
  \<open>serverMessage\<close>: \<open>errorData\<close> is the parsed body, or \<open>null\<close> when \<open>response.json()\<close>
  rejects; \<open>errorData?.error\<close> is \<open>undefined\<close> on \<open>null\<close>; \<open>||\<close> falls through on a falsy value.
\<close>

definition serverMessage :: "engine \<Rightarrow> response \<Rightarrow> string" where
  "serverMessage E r =
     (let errorData = (case body r of Inl _ \<Rightarrow> JNull | Inr v \<Rightarrow> v);
          err = (case errorData of JNull \<Rightarrow> None | _ \<Rightarrow> property errorData ''error'')
      in case err of
           Some v \<Rightarrow> if truthy_json v then messageOf E v
                      else ''Server responded with status '' @ string_of_nat (status r)
         | None \<Rightarrow> ''Server responded with status '' @ string_of_nat (status r))"

text \<open>
  The condition of the \<open>if\<close> at lines 153-158, evaluated left to right with \<open>&&\<close>
  short-circuiting: \<open>Inl m\<close> when reading a property of \<open>null\<close> throws, otherwise \<open>Inr\<close> the
  question when the condition holds and \<open>Inr None\<close> when it does not.
\<close>

definition checkShape :: "engine \<Rightarrow> json \<Rightarrow> string + TriviaQuestion option" where
  "checkShape E data =
     (if data = JNull then Inl (nullRead E ''question'')
      else case property data ''question'' of
             Some (JStr q) \<Rightarrow>
               if \<not> typeof_object (property data ''options'') then Inr None
               else (case property data ''options'' of
                       Some JNull \<Rightarrow> Inl (nullRead E ''A'')
                     | Some opts \<Rightarrow>
                         if truthy_prop (property opts ''A'') \<and> truthy_prop (property opts ''B'') \<and>
                            truthy_prop (property opts ''C'') \<and> truthy_prop (property opts ''D'')
                         then (case answerKey_of (property data ''correctAnswer'') of
                                 Some k \<Rightarrow> Inr (Some \<lparr>question_text = q, options = opts,
                                                       correctAnswer = k\<rparr>)
                               | None \<Rightarrow> Inr None)
                         else Inr None
                     | None \<Rightarrow> Inr None)
           | _ \<Rightarrow> Inr None)"

text \<open>The \<open>try\<close> block: \<open>Inl m\<close> is an \<open>Error\<close> with message \<open>m\<close> thrown inside it.\<close>

definition tryBlock :: "engine \<Rightarrow> fetch_outcome \<Rightarrow> string + TriviaQuestion" where
  "tryBlock E out =
     (case out of
        Rejected m \<Rightarrow> Inl m
      | Responded r \<Rightarrow>
          if \<not> ok r then Inl (serverMessage E r)
          else (case body r of
                  Inl m \<Rightarrow> Inl m
                | Inr data \<Rightarrow>
                    (case checkShape E data of
                       Inl m \<Rightarrow> Inl m
                     | Inr (Some q) \<Rightarrow> Inr q
                     | Inr None \<Rightarrow> Inl ''The API returned data in an unexpected format.'')))"

text \<open>The \<open>catch\<close> block rethrows every error with a prefixed message.\<close>

definition generateTriviaQuestion :: "engine \<Rightarrow> fetch_outcome \<Rightarrow> string + TriviaQuestion" where
  "generateTriviaQuestion E out =
     (case tryBlock E out of
        Inl errorMessage \<Rightarrow> Inl (''Could not load question. '' @ errorMessage)
      | Inr q \<Rightarrow> Inr q)"

section \<open>The controller\<close>

text \<open>
  The \<open>useState\<close> cells. The \<open>App\<close> of unnamed/part\_000 has the seven cells of \<open>controller\<close>;
  the \<open>App\<close> of App.tsx has these and \<open>category\<close> and \<open>timeLeft\<close>. \<open>score\<close> only ever holds 0
  or a successor, so it is a natural number; \<open>timeLeft\<close> is tested with \<open><= 0\<close> and is an
  integer.
\<close>

record controller =
  question :: "TriviaQuestion option"
  score :: nat
  isLoading :: bool
  error :: "string option"
  selectedAnswer :: "AnswerKey option"
  isAnswered :: bool
  difficulty :: "Difficulty option"

record state = controller +
  category :: "string option"
  timeLeft :: int

definition TIME_LIMIT :: int where
  "TIME_LIMIT = 15"

definition initial :: state where
  "initial = \<lparr>question = None, score = 0, isLoading = False, error = None,
     selectedAnswer = None, isAnswered = False, difficulty = None, category = None,
     timeLeft = TIME_LIMIT\<rparr>"

definition initial_p0 :: controller where
  "initial_p0 = \<lparr>question = None, score = 0, isLoading = False, error = None,
     selectedAnswer = None, isAnswered = False, difficulty = None\<rparr>"

text \<open>JavaScript truthiness of a \<open>string | null\<close>: \<open>null\<close> and the empty string are falsy.\<close>

definition truthy :: "string option \<Rightarrow> bool" where
  "truthy v = (case v of None \<Rightarrow> False | Some s \<Rightarrow> s \<noteq> [])"

subsection \<open>Handlers that are the same text in both files\<close>

definition handleAnswerSelect :: "AnswerKey \<Rightarrow> 'a controller_scheme \<Rightarrow> 'a controller_scheme" where
  "handleAnswerSelect answer s =
     (if isAnswered s then s
      else (let s1 = s\<lparr>selectedAnswer := Some answer, isAnswered := True\<rparr>
            in if Some answer = map_option correctAnswer (question s)
               then s1\<lparr>score := score s + 1\<rparr> else s1))"

definition handleDifficultySelect :: "Difficulty \<Rightarrow> 'a controller_scheme \<Rightarrow> 'a controller_scheme" where
  "handleDifficultySelect selectedDifficulty s =
     s\<lparr>score := 0, difficulty := Some selectedDifficulty\<rparr>"

subsection \<open>App.tsx\<close>

text \<open>
  \<open>fetchNewQuestion\<close> is an async function. Its body up to the \<open>await\<close> runs at once
  (\<open>fetchNewQuestion_begin\<close>: the guard, the five setters, and the call of
  \<open>generateTriviaQuestion(difficulty, category)\<close>, returned as the request issued); the rest
  runs when the promise settles (\<open>fetchNewQuestion_settle\<close>: \<open>Inr q\<close> is the \<open>try\<close> branch,
  \<open>Inl e\<close> the \<open>catch\<close> branch, both followed by \<open>finally\<close>).
\<close>

definition fetchNewQuestion_begin :: "state \<Rightarrow> state \<times> (Difficulty \<times> string) option" where
  "fetchNewQuestion_begin s =
     (case difficulty s of
        None \<Rightarrow> (s, None)
      | Some d \<Rightarrow>
          (case category s of
             None \<Rightarrow> (s, None)
           | Some c \<Rightarrow>
               if c = [] then (s, None)
               else (s\<lparr>isLoading := True, error := None, selectedAnswer := None,
                        isAnswered := False, question := None\<rparr>, Some (d, c))))"

definition fetchNewQuestion_settle :: "string + TriviaQuestion \<Rightarrow> state \<Rightarrow> state" where
  "fetchNewQuestion_settle r s =
     (case r of
        Inr newQuestion \<Rightarrow>
          s\<lparr>question := Some newQuestion, timeLeft := TIME_LIMIT, isLoading := False\<rparr>
      | Inl err \<Rightarrow>
          s\<lparr>error := Some ''Failed to generate a new question. Please try again.'',
            isLoading := False\<rparr>)"

text \<open>
  The timer effect (dependencies \<open>timeLeft, isAnswered, question, isLoading\<close>). Its body reads
  its dependencies only, and React re-runs it, after the clean-up \<open>clearInterval\<close>, whenever
  one of them changes; so what its latest run did is a function of the state: nothing,
  \<open>setIsAnswered(true)\<close>, or a live one-second interval.
\<close>

datatype timer_action = NoTimer | Expire | Interval

definition timerEffect :: "state \<Rightarrow> timer_action" where
  "timerEffect s =
     (if question s = None \<or> isAnswered s \<or> isLoading s then NoTimer
      else if timeLeft s \<le> 0 then Expire
      else Interval)"

definition timerEffect_run :: "state \<Rightarrow> state" where
  "timerEffect_run s = (if timerEffect s = Expire then s\<lparr>isAnswered := True\<rparr> else s)"

text \<open>The interval's callback \<open>setTimeLeft(prevTime => prevTime - 1)\<close>; it is called only
  while the interval is live.\<close>

definition tick :: "state \<Rightarrow> state" where
  "tick s = (if timerEffect s = Interval then s\<lparr>timeLeft := timeLeft s - 1\<rparr> else s)"

definition handleCategorySelect :: "string \<Rightarrow> state \<Rightarrow> state" where
  "handleCategorySelect selectedCategory s =
     s\<lparr>category := Some selectedCategory, difficulty := None, score := 0\<rparr>"

definition resetCategory :: "state \<Rightarrow> state" where
  "resetCategory s = s\<lparr>category := None, difficulty := None, question := None, score := 0\<rparr>"

definition resetDifficulty :: "state \<Rightarrow> state" where
  "resetDifficulty s = s\<lparr>difficulty := None, question := None, score := 0\<rparr>"

text \<open>What \<open>renderContent\<close> returns, by component.\<close>

datatype view =
    CategorySelectorView
  | DifficultySelectorView
  | LoadingSpinnerView
  | ErrorView string
  | QuizCardView TriviaQuestion
  | NullView

definition renderContent :: "state \<Rightarrow> view" where
  "renderContent s =
     (if \<not> truthy (category s) then CategorySelectorView
      else if difficulty s = None then DifficultySelectorView
      else if isLoading s then LoadingSpinnerView
      else if truthy (error s) then ErrorView (the (error s))
      else case question s of Some q \<Rightarrow> QuizCardView q | None \<Rightarrow> NullView)"

text \<open>
  The session: the state of \<open>App\<close> and the requests issued and not yet settled (each
  \<open>generateTriviaQuestion\<close> promise, with the arguments it was called with, oldest first).
\<close>

record world =
  app :: state
  inflight :: "(Difficulty \<times> string) list"

definition init_world :: world where
  "init_world = \<lparr>app = initial, inflight = []\<rparr>"

text \<open>
  The events of the session: a click on a control, a call of the interval's callback, and
  the settling of the \<open>n\<close>-th request in flight.
\<close>

datatype event =
    CategorySelect string
  | DifficultySelect Difficulty
  | AnswerSelect AnswerKey
  | NextQuestion
  | ChangeCategory
  | ChangeDifficulty
  | TimerTick
  | FetchSettled nat "string + TriviaQuestion"

definition callFetch :: "world \<Rightarrow> world" where
  "callFetch w =
     (case fetchNewQuestion_begin (app w) of
        (s, None) \<Rightarrow> w\<lparr>app := s\<rparr>
      | (s, Some req) \<Rightarrow> w\<lparr>app := s, inflight := inflight w @ [req]\<rparr>)"

text \<open>The handler or callback an event runs.\<close>

definition handle :: "event \<Rightarrow> world \<Rightarrow> world" where
  "handle ev w =
     (case ev of
        CategorySelect c \<Rightarrow> w\<lparr>app := handleCategorySelect c (app w)\<rparr>
      | DifficultySelect d \<Rightarrow> w\<lparr>app := handleDifficultySelect d (app w)\<rparr>
      | AnswerSelect k \<Rightarrow> w\<lparr>app := handleAnswerSelect k (app w)\<rparr>
      | NextQuestion \<Rightarrow> callFetch w
      | ChangeCategory \<Rightarrow> w\<lparr>app := resetCategory (app w)\<rparr>
      | ChangeDifficulty \<Rightarrow> w\<lparr>app := resetDifficulty (app w)\<rparr>
      | TimerTick \<Rightarrow> w\<lparr>app := tick (app w)\<rparr>
      | FetchSettled n r \<Rightarrow>
          if n < length (inflight w)
          then w\<lparr>app := fetchNewQuestion_settle r (app w),
                 inflight := take n (inflight w) @ drop (Suc n) (inflight w)\<rparr>
          else w)"

text \<open>
  The effects that follow the render after an event. The fetch effect (dependencies
  \<open>difficulty, category, fetchNewQuestion\<close>, the callback changing with the first two) runs
  when \<open>difficulty\<close> or \<open>category\<close> differs from the previous render, and calls
  \<open>fetchNewQuestion\<close> when both are truthy; then the timer effect runs on the result.
  A handler and the effects after it are one step of the session: React renders and runs
  the effects, clean-up first, before the next event is handled.
\<close>

definition fetchEffect :: "state \<Rightarrow> world \<Rightarrow> world" where
  "fetchEffect prev w =
     (if (difficulty (app w) \<noteq> difficulty prev \<or> category (app w) \<noteq> category prev)
         \<and> difficulty (app w) \<noteq> None \<and> truthy (category (app w))
      then callFetch w else w)"

definition effects :: "state \<Rightarrow> world \<Rightarrow> world" where
  "effects prev w = (let w1 = fetchEffect prev w in w1\<lparr>app := timerEffect_run (app w1)\<rparr>)"

definition transition :: "event \<Rightarrow> world \<Rightarrow> world" where
  "transition ev w = effects (app w) (handle ev w)"

text \<open>
  When an event can happen: the control is rendered and not disabled (the JSX of \<open>App\<close>), the
  interval is live, the request is in flight. The option buttons of \<open>QuizCard\<close> are disabled
  once the round is answered; \<open>handleAnswerSelect\<close> has its own guard for that, so the click
  is left possible whenever the card is rendered.
\<close>

definition enabled :: "event \<Rightarrow> world \<Rightarrow> bool" where
  "enabled ev w =
     (let s = app w in
      case ev of
        CategorySelect c \<Rightarrow> renderContent s = CategorySelectorView
      | DifficultySelect d \<Rightarrow> renderContent s = DifficultySelectorView
      | AnswerSelect k \<Rightarrow> (case renderContent s of QuizCardView q \<Rightarrow> True | _ \<Rightarrow> False)
      | NextQuestion \<Rightarrow> difficulty s \<noteq> None \<and> \<not> isLoading s
      | ChangeCategory \<Rightarrow> truthy (category s)
      | ChangeDifficulty \<Rightarrow> truthy (category s) \<and> difficulty s \<noteq> None
      | TimerTick \<Rightarrow> timerEffect s = Interval
      | FetchSettled n r \<Rightarrow> n < length (inflight w))"

definition step :: "event \<Rightarrow> world \<Rightarrow> world option" where
  "step ev w = (if enabled ev w then Some (transition ev w) else None)"

fun run :: "event list \<Rightarrow> world \<Rightarrow> world option" where
  "run [] w = Some w"
| "run (ev # evs) w = (case step ev w of None \<Rightarrow> None | Some w' \<Rightarrow> run evs w')"

text \<open>The terminal outcome of the round a state is in, when it has one.\<close>

datatype outcome = Timeout | CorrectAnswer | IncorrectAnswer

definition outcome_of :: "'a controller_scheme \<Rightarrow> outcome option" where
  "outcome_of s =
     (if \<not> isAnswered s then None
      else case selectedAnswer s of
             None \<Rightarrow> Some Timeout
           | Some k \<Rightarrow> if Some k = map_option correctAnswer (question s)
                       then Some CorrectAnswer else Some IncorrectAnswer)"

subsection \<open>The App of unnamed/part\_000 (no category, no timer)\<close>

definition fetchNewQuestion_begin_p0 :: "controller \<Rightarrow> controller \<times> Difficulty option" where
  "fetchNewQuestion_begin_p0 s =
     (case difficulty s of
        None \<Rightarrow> (s, None)
      | Some d \<Rightarrow> (s\<lparr>isLoading := True, error := None, selectedAnswer := None,
                      isAnswered := False, question := None\<rparr>, Some d))"

definition fetchNewQuestion_settle_p0 :: "string + TriviaQuestion \<Rightarrow> controller \<Rightarrow> controller" where
  "fetchNewQuestion_settle_p0 r s =
     (case r of
        Inr newQuestion \<Rightarrow> s\<lparr>question := Some newQuestion, isLoading := False\<rparr>
      | Inl errorMessage \<Rightarrow> s\<lparr>error := Some errorMessage, isLoading := False\<rparr>)"


datatype event_p0 =
    DifficultySelect_p0 Difficulty
  | AnswerSelect_p0 AnswerKey
  | NextQuestion_p0
  | TryAgain_p0
  | ChangeDifficulty_p0
  | FetchSettled_p0 fetch_outcome

definition handle_p0 :: "engine \<Rightarrow> event_p0 \<Rightarrow> controller \<Rightarrow> controller" where
  "handle_p0 E ev s =
     (case ev of
        DifficultySelect_p0 d \<Rightarrow> handleDifficultySelect d s
      | AnswerSelect_p0 k \<Rightarrow> handleAnswerSelect k s
      | NextQuestion_p0 \<Rightarrow> fst (fetchNewQuestion_begin_p0 s)
      | TryAgain_p0 \<Rightarrow> fst (fetchNewQuestion_begin_p0 s)
      | ChangeDifficulty_p0 \<Rightarrow> s\<lparr>difficulty := None\<rparr>
      | FetchSettled_p0 out \<Rightarrow> fetchNewQuestion_settle_p0 (generateTriviaQuestion E out) s)"

text \<open>The one effect (dependencies \<open>difficulty, fetchNewQuestion\<close>) after the handler.\<close>

definition transition_p0 :: "engine \<Rightarrow> event_p0 \<Rightarrow> controller \<Rightarrow> controller" where
  "transition_p0 E ev s =
     (let s1 = handle_p0 E ev s
      in if difficulty s1 \<noteq> difficulty s \<and> difficulty s1 \<noteq> None
         then fst (fetchNewQuestion_begin_p0 s1) else s1)"

section \<open>The service worker's fetch handler (service-worker.js)\<close>

record request =
  http_method :: string
  url :: string

record sw_response =
  sw_status :: nat
  sw_body :: string

text \<open>\<open>CacheStorage\<close>: the caches by name, in creation order, each a map from URL to response.\<close>

type_synonym cache_storage = "(string \<times> (string \<rightharpoonup> sw_response)) list"

definition CACHE_NAME :: string where
  "CACHE_NAME = ''ai-trivia-quiz-v5''"

text \<open>\<open>String.prototype.includes\<close>.\<close>

fun str_includes :: "string \<Rightarrow> string \<Rightarrow> bool" where
  "str_includes [] sub = (sub = [])"
| "str_includes (c # cs) sub = (take (length sub) (c # cs) = sub \<or> str_includes cs sub)"

text \<open>\<open>caches.match\<close>: the first cache, in creation order, that holds the URL.\<close>

fun caches_match :: "cache_storage \<Rightarrow> string \<Rightarrow> sw_response option" where
  "caches_match [] u = None"
| "caches_match ((name, c) # rest) u =
     (case c u of Some r \<Rightarrow> Some r | None \<Rightarrow> caches_match rest u)"

text \<open>\<open>caches.open(name)\<close> followed by \<open>cache.put\<close>; \<open>open\<close> creates a cache that is missing.\<close>

fun caches_put :: "string \<Rightarrow> string \<Rightarrow> sw_response \<Rightarrow> cache_storage \<Rightarrow> cache_storage" where
  "caches_put name u r [] = [(name, [u \<mapsto> r])]"
| "caches_put name u r ((n, c) # rest) =
     (if n = name then (n, c(u \<mapsto> r)) # rest else (n, c) # caches_put name u r rest)"

text \<open>What the handler does with the event, and the calls it makes on the way.\<close>

datatype sw_call = NetworkFetch string | CacheMatch string | CachePut string string

datatype sw_result =
    NotHandled
  | RespondWith "sw_response option"

text \<open>
  The listener. \<open>net\<close> is what \<open>fetch(event.request)\<close> resolves with (\<open>None\<close> when it
  rejects). The result is what the page gets, the cache storage afterwards and the calls
  made, in order.
\<close>

definition fetch_listener ::
  "(request \<Rightarrow> sw_response option) \<Rightarrow> cache_storage \<Rightarrow> request
     \<Rightarrow> sw_result \<times> cache_storage \<times> sw_call list" where
  "fetch_listener net caches req =
     (if http_method req \<noteq> ''GET'' then (NotHandled, caches, [])
      else if str_includes (url req) ''/api/''
      then (RespondWith (net req), caches, [NetworkFetch (url req)])
      else case caches_match caches (url req) of
             Some r \<Rightarrow> (RespondWith (Some r), caches, [CacheMatch (url req)])
           | None \<Rightarrow>
               (case net req of
                  None \<Rightarrow> (RespondWith None, caches, [CacheMatch (url req), NetworkFetch (url req)])
                | Some networkResponse \<Rightarrow>
                    if sw_status networkResponse = 200
                    then (RespondWith (Some networkResponse),
                          caches_put CACHE_NAME (url req) networkResponse caches,
                          [CacheMatch (url req), NetworkFetch (url req),
                           CachePut CACHE_NAME (url req)])
                    else (RespondWith (Some networkResponse), caches,
                          [CacheMatch (url req), NetworkFetch (url req)])))"

section \<open>The session with its interval\<close>

text \<open>
  The session once more, with \<open>setInterval\<close> and \<open>clearInterval\<close> as the timer effect calls
  them: \<open>interval\<close> says that an interval registered by the effect has not been cleared.
\<close>

record session =
  st :: state
  pending :: "(Difficulty \<times> string) list"
  interval :: bool

definition init_session :: session where
  "init_session = \<lparr>st = initial, pending = [], interval = False\<rparr>"

text \<open>The session without the interval.\<close>

definition world_of :: "session \<Rightarrow> world" where
  "world_of S = \<lparr>app = st S, inflight = pending S\<rparr>"

text \<open>
  A dependency of the timer effect, or of the fetch effect, differs between the previous
  render and this one. The cells are compared by value; React compares the question by
  identity, which can only make the timer effect run once more on an equal state, with the
  same outcome.
\<close>

definition timer_deps_changed :: "state \<Rightarrow> state \<Rightarrow> bool" where
  "timer_deps_changed prev s =
     (timeLeft s \<noteq> timeLeft prev \<or> isAnswered s \<noteq> isAnswered prev
      \<or> question s \<noteq> question prev \<or> isLoading s \<noteq> isLoading prev)"

definition fetch_deps_changed :: "state \<Rightarrow> state \<Rightarrow> bool" where
  "fetch_deps_changed prev s = (difficulty s \<noteq> difficulty prev \<or> category s \<noteq> category prev)"

text \<open>The fetch effect runs and its test \<open>difficulty && category\<close> holds.\<close>

definition fetch_fires :: "state \<Rightarrow> state \<Rightarrow> bool" where
  "fetch_fires prev s =
     (fetch_deps_changed prev s \<and> difficulty s \<noteq> None \<and> truthy (category s))"

text \<open>\<open>fetchNewQuestion()\<close>, and the handlers; the interval's callback is
  \<open>setTimeLeft(prevTime => prevTime - 1)\<close>, with no test of its own.\<close>

definition callFetch_t :: "session \<Rightarrow> session" where
  "callFetch_t S = (let w = callFetch (world_of S) in S\<lparr>st := app w, pending := inflight w\<rparr>)"

definition handle_t :: "event \<Rightarrow> session \<Rightarrow> session" where
  "handle_t ev S =
     (case ev of
        TimerTick \<Rightarrow> S\<lparr>st := (st S)\<lparr>timeLeft := timeLeft (st S) - 1\<rparr>\<rparr>
      | _ \<Rightarrow> (let w = handle ev (world_of S) in S\<lparr>st := app w, pending := inflight w\<rparr>))"

text \<open>
  The effects after one render of the state \<open>s\<close>, the previous render having shown \<open>prev\<close>. Both
  effects read \<open>s\<close>, and the setters they call are applied in the order of the calls, the
  fetch effect being declared first. The timer effect, when it runs, first runs the clean-up
  of its previous run (\<open>clearInterval\<close>), then its body: it returns, or calls
  \<open>setIsAnswered(true)\<close>, or registers an interval.
\<close>

definition effect_pass :: "state \<Rightarrow> session \<Rightarrow> session" where
  "effect_pass prev S =
     (let s = st S;
          S1 = (if fetch_fires prev s then callFetch_t S else S)
      in if timer_deps_changed prev s
         then (case timerEffect s of
                 NoTimer \<Rightarrow> S1\<lparr>interval := False\<rparr>
               | Expire \<Rightarrow> S1\<lparr>st := (st S1)\<lparr>isAnswered := True\<rparr>, interval := False\<rparr>
               | Interval \<Rightarrow> S1\<lparr>interval := True\<rparr>)
         else S1)"

text \<open>The setters called by the effects cause one more render, after which the effects run
  again. In a session a further run finds the state it rendered last, and does nothing
  (\<open>effects_settle\<close> below).\<close>

definition effects_t :: "state \<Rightarrow> session \<Rightarrow> session" where
  "effects_t prev S = effect_pass (st S) (effect_pass prev S)"

definition transition_t :: "event \<Rightarrow> session \<Rightarrow> session" where
  "transition_t ev S = effects_t (st S) (handle_t ev S)"

text \<open>The interval's callback can be called only while an interval is registered; the other
  events are possible as before.\<close>

definition enabled_t :: "event \<Rightarrow> session \<Rightarrow> bool" where
  "enabled_t ev S = (case ev of TimerTick \<Rightarrow> interval S | _ \<Rightarrow> enabled ev (world_of S))"

definition step_t :: "event \<Rightarrow> session \<Rightarrow> session option" where
  "step_t ev S = (if enabled_t ev S then Some (transition_t ev S) else None)"

fun run_t :: "event list \<Rightarrow> session \<Rightarrow> session option" where
  "run_t [] S = Some S"
| "run_t (ev # evs) S = (case step_t ev S of None \<Rightarrow> None | Some S' \<Rightarrow> run_t evs S')"

text \<open>
  An interval is registered exactly when the timer effect would register one, and the
  time is not up on an unanswered question. Every state of a session has this property,
  and the session of the controller section is this session without its interval
  (\<open>sim_step\<close>, \<open>sim_run\<close> below): there the test \<open>timerEffect s = Interval\<close> stands for
  the registered interval.
\<close>

definition timer_settled :: "session \<Rightarrow> bool" where
  "timer_settled S = (interval S = (timerEffect (st S) = Interval) \<and> timerEffect (st S) \<noteq> Expire)"

section \<open>Invariants and sample data\<close>

text \<open>A selection exists only on an answered round.\<close>

definition sel_inv :: "'a controller_scheme \<Rightarrow> bool" where
  "sel_inv s = (selectedAnswer s = None \<or> isAnswered s)"

text \<open>The countdown stays within its range.\<close>

definition time_inv :: "state \<Rightarrow> bool" where
  "time_inv s = (0 \<le> timeLeft s \<and> timeLeft s \<le> TIME_LIMIT)"

text \<open>While loading there is no question.\<close>

definition load_inv :: "state \<Rightarrow> bool" where
  "load_inv s = (isLoading s \<longrightarrow> question s = None)"


text \<open>The states in which the timer effect returns at its first test.\<close>

definition timer_idle :: "state \<Rightarrow> bool" where
  "timer_idle s = (question s = None \<or> isAnswered s \<or> isLoading s)"

text \<open>The event is the arrival of a question.\<close>

definition fetch_success :: "event \<Rightarrow> bool" where
  "fetch_success ev = (case ev of FetchSettled n (Inr q) \<Rightarrow> True | _ \<Rightarrow> False)"

text \<open>The payload of the scenarios in section 8 of the specification, a second question, and
  an engine for the closed examples (none of them calls its members).\<close>

definition sample_question :: TriviaQuestion where
  "sample_question = \<lparr>question_text = ''2+2?'',
     options = JObj [(''A'', JStr ''3''), (''B'', JStr ''4''), (''C'', JStr ''5''), (''D'', JStr ''6'')],
     correctAnswer = B\<rparr>"

definition hard_question :: TriviaQuestion where
  "hard_question = \<lparr>question_text = ''17*23?'',
     options = JObj [(''A'', JStr ''391''), (''B'', JStr ''381''), (''C'', JStr ''401''),
                     (''D'', JStr ''371'')],
     correctAnswer = A\<rparr>"

definition sample_engine :: engine where
  "sample_engine = \<lparr>stringOf = (\<lambda>v. ''[object Object]''),
     nullRead = (\<lambda>p. ''Cannot read properties of null'')\<rparr>"

text \<open>Any sequence of events of the controller of unnamed/part\_000, from a state.\<close>

definition run_p0 :: "engine \<Rightarrow> event_p0 list \<Rightarrow> controller \<Rightarrow> controller" where
  "run_p0 E evs s = foldl (\<lambda>s ev. transition_p0 E ev s) s evs"


text \<open>
  A session that starts a round (category, difficulty, the question arrives), the state it
  reaches, that state one second before the time is up, and the state after five ticks and
  the wrong answer \<open>C\<close>.
\<close>

definition round_started :: "event list" where
  "round_started = [CategorySelect ''Science'', DifficultySelect Easy,
                    FetchSettled 0 (Inr sample_question)]"

definition awaiting_answer :: world where
  "awaiting_answer = \<lparr>app = initial\<lparr>category := Some ''Science'', difficulty := Some Easy,
                                      question := Some sample_question\<rparr>,
                       inflight = []\<rparr>"

definition last_second :: world where
  "last_second = awaiting_answer\<lparr>app := (app awaiting_answer)\<lparr>timeLeft := 1\<rparr>\<rparr>"

definition answered_wrong :: world where
  "answered_wrong = awaiting_answer\<lparr>app := (app awaiting_answer)\<lparr>timeLeft := 10,
                       selectedAnswer := Some C, isAnswered := True\<rparr>\<rparr>"

text \<open>
  Sessions with two requests in flight: the Easy request is still in flight when the
  difficulty is changed to Hard. \<open>two_in_flight\<close> is the state after the second request is
  issued; in \<open>answered_before_late_result\<close> the Hard question has arrived and is answered;
  \<open>late_result\<close> is that session with five ticks before the answer, \<open>answered_at_ten\<close> the
  state it reaches. \<open>first_fetch\<close> is the sample session while its one request is in flight.
\<close>

definition two_in_flight :: world where
  "two_in_flight = \<lparr>app = initial\<lparr>category := Some ''Science'', difficulty := Some Hard,
                                    isLoading := True\<rparr>,
                     inflight = [(Easy, ''Science''), (Hard, ''Science'')]\<rparr>"



definition late_result :: "event list" where
  "late_result = [CategorySelect ''Science'', DifficultySelect Easy, ChangeDifficulty,
                  DifficultySelect Hard, FetchSettled 1 (Inr hard_question)]
                 @ replicate 5 TimerTick @ [AnswerSelect B]"

definition answered_at_ten :: session where
  "answered_at_ten = \<lparr>st = initial\<lparr>category := Some ''Science'', difficulty := Some Hard,
                          question := Some hard_question, timeLeft := 10,
                          selectedAnswer := Some B, isAnswered := True\<rparr>,
                       pending = [(Easy, ''Science'')], interval = False\<rparr>"

section \<open>Auxiliary facts\<close>

lemmas model_defs = step_def enabled_def transition_def effects_def fetchEffect_def callFetch_def handle_def Let_def
        timerEffect_run_def timerEffect_def tick_def fetchNewQuestion_begin_def
        fetchNewQuestion_settle_def handleCategorySelect_def handleDifficultySelect_def
        handleAnswerSelect_def resetCategory_def resetDifficulty_def TIME_LIMIT_def
        renderContent_def truthy_def init_world_def initial_def

subsection \<open>The selection invariant\<close>

lemma sel_inv_handleAnswerSelect: "sel_inv s \<Longrightarrow> sel_inv (handleAnswerSelect k s)"
  by (simp add: sel_inv_def handleAnswerSelect_def Let_def)

lemma sel_inv_begin: "sel_inv (fst (fetchNewQuestion_begin s)) = (snd (fetchNewQuestion_begin s) \<noteq> None \<or> sel_inv s)"
  by (simp add: sel_inv_def fetchNewQuestion_begin_def split: option.splits)

lemma sel_inv_settle: "sel_inv (fetchNewQuestion_settle r s) = sel_inv s"
  by (simp add: sel_inv_def fetchNewQuestion_settle_def split: sum.splits)

lemma sel_inv_timerEffect_run: "sel_inv s \<Longrightarrow> sel_inv (timerEffect_run s)"
  by (simp add: sel_inv_def timerEffect_run_def)

lemma sel_inv_tick: "sel_inv (tick s) = sel_inv s"
  by (simp add: sel_inv_def tick_def)

lemma sel_inv_callFetch: "sel_inv (app w) \<Longrightarrow> sel_inv (app (callFetch w))"
  using sel_inv_begin [of "app w"]
  by (auto simp: callFetch_def split: prod.splits option.splits)

lemma sel_inv_handle: "sel_inv (app w) \<Longrightarrow> sel_inv (app (handle ev w))"
  by (cases ev)
     (simp_all add: handle_def sel_inv_handleAnswerSelect sel_inv_callFetch sel_inv_settle
        sel_inv_tick,
      simp_all add: sel_inv_def handleCategorySelect_def handleDifficultySelect_def
        resetCategory_def resetDifficulty_def)

lemma sel_inv_effects: "sel_inv (app w) \<Longrightarrow> sel_inv (app (effects prev w))"
  by (simp add: effects_def fetchEffect_def Let_def sel_inv_callFetch sel_inv_timerEffect_run)

lemma sel_inv_transition: "sel_inv (app w) \<Longrightarrow> sel_inv (app (transition ev w))"
  by (simp add: transition_def sel_inv_effects sel_inv_handle)

lemma sel_inv_run: "run evs w = Some w' \<Longrightarrow> sel_inv (app w) \<Longrightarrow> sel_inv (app w')"
proof (induction evs arbitrary: w)
  case Nil
  then show ?case by simp
next
  case (Cons ev evs)
  from Cons.prems(1) have "enabled ev w" and r: "run evs (transition ev w) = Some w'"
    by (auto simp: step_def split: if_splits)
  from Cons.IH [OF r] Cons.prems(2) show ?case
    by (simp add: sel_inv_transition)
qed

lemma sel_inv_initial: "sel_inv (app init_world)"
  by (simp add: sel_inv_def init_world_def initial_def)

lemma sel_inv_transition_p0: "sel_inv s \<Longrightarrow> sel_inv (transition_p0 E ev s)"
  by (cases ev)
     (auto simp: transition_p0_def handle_p0_def Let_def sel_inv_def handleAnswerSelect_def
        handleDifficultySelect_def fetchNewQuestion_begin_p0_def fetchNewQuestion_settle_p0_def
        split: option.splits sum.splits)

lemma sel_inv_run_p0: "sel_inv s \<Longrightarrow> sel_inv (run_p0 E evs s)"
  unfolding run_p0_def
  by (induction evs arbitrary: s) (simp_all add: sel_inv_transition_p0)

subsection \<open>The countdown\<close>

lemma time_inv_transition: "time_inv (app w) \<Longrightarrow> time_inv (app (transition ev w))"
  by (cases ev)
     (auto simp: transition_def effects_def fetchEffect_def callFetch_def handle_def Let_def
        time_inv_def timerEffect_run_def timerEffect_def tick_def fetchNewQuestion_begin_def
        fetchNewQuestion_settle_def handleCategorySelect_def handleDifficultySelect_def
        handleAnswerSelect_def resetCategory_def resetDifficulty_def TIME_LIMIT_def
        split: option.splits sum.splits if_splits)

lemma time_inv_run: "run evs w = Some w' \<Longrightarrow> time_inv (app w) \<Longrightarrow> time_inv (app w')"
proof (induction evs arbitrary: w)
  case Nil
  then show ?case by simp
next
  case (Cons ev evs)
  from Cons.prems(1) have r: "run evs (transition ev w) = Some w'"
    by (auto simp: step_def split: if_splits)
  from Cons.IH [OF r] Cons.prems(2) show ?case
    by (simp add: time_inv_transition)
qed

lemma time_inv_initial: "time_inv (app init_world)"
  by (simp add: time_inv_def init_world_def initial_def TIME_LIMIT_def)

lemma transition_AnswerSelect:
  "transition (AnswerSelect k) w = w\<lparr>app := handleAnswerSelect k (app w)\<rparr>"
  by (simp add: transition_def effects_def fetchEffect_def handle_def Let_def
        timerEffect_run_def timerEffect_def handleAnswerSelect_def)

lemma transition_TimerTick:
  "transition TimerTick w = w\<lparr>app := timerEffect_run (tick (app w))\<rparr>"
  by (simp add: transition_def effects_def fetchEffect_def handle_def Let_def tick_def)

lemma timeLeft_transition_cases:
  "timerEffect (app w) \<noteq> Interval \<Longrightarrow>
     timeLeft (app (transition ev w)) = timeLeft (app w)
     \<or> ((\<exists>n q. ev = FetchSettled n (Inr q)) \<and> timeLeft (app (transition ev w)) = TIME_LIMIT)"
  by (cases ev)
     (auto simp: transition_def effects_def fetchEffect_def callFetch_def handle_def Let_def
        timerEffect_run_def tick_def fetchNewQuestion_begin_def
        fetchNewQuestion_settle_def handleCategorySelect_def handleDifficultySelect_def
        handleAnswerSelect_def resetCategory_def resetDifficulty_def
        split: option.splits sum.splits if_splits)

lemma load_inv_transition: "load_inv (app w) \<Longrightarrow> load_inv (app (transition ev w))"
  by (cases ev)
     (auto simp: transition_def effects_def fetchEffect_def callFetch_def handle_def Let_def
        load_inv_def timerEffect_run_def tick_def fetchNewQuestion_begin_def
        fetchNewQuestion_settle_def handleCategorySelect_def handleDifficultySelect_def
        handleAnswerSelect_def resetCategory_def resetDifficulty_def
        split: option.splits sum.splits if_splits)

lemma load_inv_run: "run evs w = Some w' \<Longrightarrow> load_inv (app w) \<Longrightarrow> load_inv (app w')"
proof (induction evs arbitrary: w)
  case Nil
  then show ?case by simp
next
  case (Cons ev evs)
  from Cons.prems(1) have r: "run evs (transition ev w) = Some w'"
    by (auto simp: step_def split: if_splits)
  from Cons.IH [OF r] Cons.prems(2) show ?case
    by (simp add: load_inv_transition)
qed

lemma load_inv_initial: "load_inv (app init_world)"
  by (simp add: load_inv_def init_world_def initial_def)

lemma timer_idle_transition:
  "load_inv (app w) \<Longrightarrow> timer_idle (app w) \<Longrightarrow> \<not> fetch_success ev \<Longrightarrow>
     timer_idle (app (transition ev w))"
  by (cases ev)
     (auto simp: transition_def effects_def fetchEffect_def callFetch_def handle_def Let_def
        load_inv_def timer_idle_def fetch_success_def timerEffect_run_def timerEffect_def tick_def
        fetchNewQuestion_begin_def
        fetchNewQuestion_settle_def handleCategorySelect_def handleDifficultySelect_def
        handleAnswerSelect_def resetCategory_def resetDifficulty_def
        split: option.splits sum.splits if_splits)

lemma timer_idle_timeLeft:
  assumes "timer_idle (app w)" and "\<not> fetch_success ev"
  shows "timeLeft (app (transition ev w)) = timeLeft (app w)"
proof -
  have "timerEffect (app w) \<noteq> Interval"
    using assms(1) by (simp add: timer_idle_def timerEffect_def)
  from timeLeft_transition_cases [OF this, of ev] assms(2) show ?thesis
    by (auto simp: fetch_success_def)
qed

lemma frozen_run:
  "run evs w = Some w' \<Longrightarrow> load_inv (app w) \<Longrightarrow> timer_idle (app w) \<Longrightarrow>
     list_all (\<lambda>ev. \<not> fetch_success ev) evs \<Longrightarrow>
     timeLeft (app w') = timeLeft (app w) \<and> timer_idle (app w')"
proof (induction evs arbitrary: w)
  case Nil
  then show ?case by simp
next
  case (Cons ev evs)
  from Cons.prems(1) have r: "run evs (transition ev w) = Some w'"
    by (auto simp: step_def split: if_splits)
  from Cons.prems(4) have ne: "\<not> fetch_success ev"
    and rest: "list_all (\<lambda>ev. \<not> fetch_success ev) evs" by simp_all
  have li: "load_inv (app (transition ev w))"
    using Cons.prems(2) by (rule load_inv_transition)
  have ti: "timer_idle (app (transition ev w))"
    using Cons.prems(2,3) ne by (rule timer_idle_transition)
  have tl: "timeLeft (app (transition ev w)) = timeLeft (app w)"
    using Cons.prems(3) ne by (rule timer_idle_timeLeft)
  from Cons.IH [OF r li ti rest] tl show ?case by simp
qed

subsection \<open>Single transitions\<close>

lemma transition_CategorySelect:
  "transition (CategorySelect c) w = w\<lparr>app := timerEffect_run (handleCategorySelect c (app w))\<rparr>"
  by (simp add: transition_def effects_def fetchEffect_def handle_def Let_def
        handleCategorySelect_def)

lemma enabled_DifficultySelect:
  "enabled (DifficultySelect d) w = (truthy (category (app w)) \<and> difficulty (app w) = None)"
  by (auto simp: enabled_def renderContent_def Let_def split: option.splits)

lemma callFetch_truthy:
  "difficulty (app w) = Some d \<Longrightarrow> truthy (category (app w)) \<Longrightarrow>
     callFetch w = w\<lparr>app := (app w)\<lparr>isLoading := True, error := None, selectedAnswer := None,
                                  isAnswered := False, question := None\<rparr>,
                   inflight := inflight w @ [(d, the (category (app w)))]\<rparr>"
  by (cases "category (app w)") (simp_all add: callFetch_def fetchNewQuestion_begin_def truthy_def)

lemma transition_DifficultySelect:
  assumes "enabled (DifficultySelect d) w"
  shows "transition (DifficultySelect d) w =
     w\<lparr>app := (app w)\<lparr>score := 0, difficulty := Some d, isLoading := True, error := None,
                  selectedAnswer := None, isAnswered := False, question := None\<rparr>,
       inflight := inflight w @ [(d, the (category (app w)))]\<rparr>"
proof -
  from assms have t: "truthy (category (app w))" and n: "difficulty (app w) = None"
    by (simp_all add: enabled_DifficultySelect)
  let ?w1 = "handle (DifficultySelect d) w"
  have h: "?w1 = w\<lparr>app := (app w)\<lparr>score := 0, difficulty := Some d\<rparr>\<rparr>"
    by (simp add: handle_def handleDifficultySelect_def)
  have f: "fetchEffect (app w) ?w1 = callFetch ?w1"
    using t n by (simp add: fetchEffect_def h)
  have c: "callFetch ?w1 = w\<lparr>app := (app w)\<lparr>score := 0, difficulty := Some d, isLoading := True, error := None,
                  selectedAnswer := None, isAnswered := False, question := None\<rparr>,
       inflight := inflight w @ [(d, the (category (app w)))]\<rparr>"
    using t by (simp add: h callFetch_truthy [of _ d])
  show ?thesis
    by (simp add: transition_def effects_def f c Let_def timerEffect_run_def timerEffect_def)
qed

lemma callFetch_keeps:
  "difficulty (app (callFetch w)) = difficulty (app w)
   \<and> category (app (callFetch w)) = category (app w)"
  by (simp add: callFetch_def fetchNewQuestion_begin_def split: option.splits)





lemma transition_FetchSettled_Inr:
  "n < length (inflight w) \<Longrightarrow>
     transition (FetchSettled n (Inr q)) w =
       w\<lparr>app := (app w)\<lparr>question := Some q, timeLeft := TIME_LIMIT, isLoading := False\<rparr>,
         inflight := take n (inflight w) @ drop (Suc n) (inflight w)\<rparr>"
  by (simp add: transition_def effects_def fetchEffect_def handle_def Let_def
        fetchNewQuestion_settle_def timerEffect_run_def timerEffect_def TIME_LIMIT_def)

subsection \<open>The sample session\<close>

lemma run_round_started: "run round_started init_world = Some awaiting_answer"
  by (simp add: round_started_def awaiting_answer_def model_defs)

lemma run_last_second: "run (round_started @ replicate 14 TimerTick) init_world = Some last_second"
  by (simp add: round_started_def awaiting_answer_def last_second_def model_defs eval_nat_numeral)

lemma run_answered_wrong:
  "run (round_started @ replicate 5 TimerTick @ [AnswerSelect C]) init_world = Some answered_wrong"
  by (simp add: round_started_def awaiting_answer_def answered_wrong_def model_defs
        sample_question_def eval_nat_numeral)

subsection \<open>The question source client\<close>

lemma checkShape_Some_iff:
  "checkShape E data = Inr (Some q) \<longleftrightarrow>
     (\<exists>kvs. property data ''question'' = Some (JStr (question_text q))
        \<and> property data ''options'' = Some (JObj kvs) \<and> options q = JObj kvs
        \<and> truthy_prop (map_of kvs ''A'') \<and> truthy_prop (map_of kvs ''B'')
        \<and> truthy_prop (map_of kvs ''C'') \<and> truthy_prop (map_of kvs ''D'')
        \<and> answerKey_of (property data ''correctAnswer'') = Some (correctAnswer q))"
proof (cases data)
  case (JObj fields)
  show ?thesis
  proof (cases "map_of fields ''question''")
    case None
    then show ?thesis using JObj by (simp add: checkShape_def)
  next
    case (Some qv)
    show ?thesis
    proof (cases qv)
      case (JStr qs)
      show ?thesis
      proof (cases "map_of fields ''options''")
        case None
        then show ?thesis using JObj Some JStr by (simp add: checkShape_def typeof_object_def)
      next
        case (Some ov)
        show ?thesis
          using JObj \<open>map_of fields ''question'' = Some qv\<close> JStr Some
          by (cases ov)
             (auto simp: checkShape_def typeof_object_def truthy_prop_def
                split: option.splits)
      qed
    qed (use JObj Some in \<open>simp_all add: checkShape_def\<close>)
  qed
qed (simp_all add: checkShape_def)





subsection \<open>Substrings\<close>

lemma str_includes_iff: "str_includes s sub \<longleftrightarrow> (\<exists>p q. s = p @ sub @ q)"
proof (induction s)
  case Nil
  then show ?case by auto
next
  case (Cons c cs)
  show ?case
  proof
    assume "str_includes (c # cs) sub"
    then consider "take (length sub) (c # cs) = sub" | "str_includes cs sub" by auto
    then show "\<exists>p q. c # cs = p @ sub @ q"
    proof cases
      case 1
      then have "c # cs = [] @ sub @ drop (length sub) (c # cs)"
        by (metis append_Nil append_take_drop_id)
      then show ?thesis by blast
    next
      case 2
      then obtain p q where "cs = p @ sub @ q" using Cons.IH by blast
      then have "c # cs = (c # p) @ sub @ q" by simp
      then show ?thesis by blast
    qed
  next
    assume "\<exists>p q. c # cs = p @ sub @ q"
    then obtain p q where pq: "c # cs = p @ sub @ q" by blast
    show "str_includes (c # cs) sub"
    proof (cases p)
      case Nil
      then have "take (length sub) (c # cs) = sub" using pq by simp
      then show ?thesis by simp
    next
      case (Cons a p')
      then have "cs = p' @ sub @ q" using pq by simp
      then have "str_includes cs sub" using Cons.IH by blast
      then show ?thesis by simp
    qed
  qed
qed

subsection \<open>The interval follows the state\<close>

lemma timerEffect_deps:
  "\<not> timer_deps_changed prev s \<Longrightarrow> timerEffect s = timerEffect prev"
  by (simp add: timer_deps_changed_def timerEffect_def)

lemma callFetch_t_world: "world_of (callFetch_t S) = callFetch (world_of S)"
  by (simp add: callFetch_t_def world_of_def Let_def)

lemma st_callFetch_t: "st (callFetch_t S) = app (callFetch (world_of S))"
  by (simp add: callFetch_t_def Let_def)

lemma callFetch_t_interval: "interval (callFetch_t S) = interval S"
  by (simp add: callFetch_t_def Let_def)


lemma callFetch_guard:
  "difficulty (app w) \<noteq> None \<Longrightarrow> truthy (category (app w)) \<Longrightarrow>
   app (callFetch w) = (app w)\<lparr>isLoading := True, error := None, selectedAnswer := None,
                                isAnswered := False, question := None\<rparr>"
  by (auto simp: callFetch_def fetchNewQuestion_begin_def truthy_def split: option.splits)

lemma fetch_fires_same: "\<not> fetch_fires s s"
  by (simp add: fetch_fires_def fetch_deps_changed_def)

lemma fetch_fires_answered: "fetch_fires s (s\<lparr>isAnswered := b\<rparr>) = False"
  by (simp add: fetch_fires_def fetch_deps_changed_def)

lemma fetchEffect_fires:
  "fetchEffect prev w = (if fetch_fires prev (app w) then callFetch w else w)"
  by (auto simp: fetchEffect_def fetch_fires_def fetch_deps_changed_def)

lemma effects_no_fetch:
  assumes "\<not> fetch_fires prev (st S)"
    and "interval S = (timerEffect prev = Interval)" and "timerEffect prev \<noteq> Expire"
  shows "world_of (effects_t prev S) = effects prev (world_of S) \<and> timer_settled (effects_t prev S)
     \<and> st (effects_t prev S) = st (effect_pass prev S)"
proof (cases "timer_deps_changed prev (st S)")
  case False
  then have e: "timerEffect (st S) = timerEffect prev" by (rule timerEffect_deps)
  have p: "effect_pass prev S = S"
    using assms(1) False by (simp add: effect_pass_def Let_def)
  have q: "effect_pass (st S) S = S"
    by (simp add: effect_pass_def Let_def fetch_fires_same timer_deps_changed_def)
  show ?thesis
    using assms e
    by (simp add: effects_t_def p q effects_def fetchEffect_fires fetch_fires_same fetch_fires_answered
          timerEffect_run_def timer_settled_def world_of_def Let_def)
next
  case True
  show ?thesis
  proof (cases "timerEffect (st S)")
    case NoTimer
    have p: "effect_pass prev S = S\<lparr>interval := False\<rparr>"
      using assms(1) True NoTimer by (simp add: effect_pass_def Let_def)
    have q: "effect_pass (st S) (S\<lparr>interval := False\<rparr>) = S\<lparr>interval := False\<rparr>"
      by (simp add: effect_pass_def Let_def fetch_fires_same timer_deps_changed_def)
    show ?thesis
      using assms(1) NoTimer
      by (simp add: effects_t_def p q effects_def fetchEffect_fires fetch_fires_same fetch_fires_answered
            timerEffect_run_def timer_settled_def world_of_def Let_def)
  next
    case Interval
    have p: "effect_pass prev S = S\<lparr>interval := True\<rparr>"
      using assms(1) True Interval by (simp add: effect_pass_def Let_def)
    have q: "effect_pass (st S) (S\<lparr>interval := True\<rparr>) = S\<lparr>interval := True\<rparr>"
      by (simp add: effect_pass_def Let_def fetch_fires_same timer_deps_changed_def)
    show ?thesis
      using assms(1) Interval
      by (simp add: effects_t_def p q effects_def fetchEffect_fires fetch_fires_same fetch_fires_answered
            timerEffect_run_def timer_settled_def world_of_def Let_def)
  next
    case Expire
    have p: "effect_pass prev S = S\<lparr>st := (st S)\<lparr>isAnswered := True\<rparr>, interval := False\<rparr>"
      using assms(1) True Expire by (simp add: effect_pass_def Let_def)
    have na: "\<not> isAnswered (st S)"
      using Expire by (auto simp: timerEffect_def split: if_splits)
    have q: "effect_pass (st S) (S\<lparr>st := (st S)\<lparr>isAnswered := True\<rparr>, interval := False\<rparr>)
        = S\<lparr>st := (st S)\<lparr>isAnswered := True\<rparr>, interval := False\<rparr>"
      using na
      by (simp add: effect_pass_def Let_def fetch_fires_answered timer_deps_changed_def
            timerEffect_def)
    have ex: "question (st S) \<noteq> None" "\<not> isLoading (st S)" "timeLeft (st S) \<le> 0"
      using Expire by (auto simp: timerEffect_def split: if_splits)
    show ?thesis
      using assms(1) ex na
      by (simp add: effects_t_def p q effects_def fetchEffect_fires
            timerEffect_run_def timer_settled_def world_of_def Let_def timerEffect_def)
  qed
qed


lemma pass_while_loading:
  assumes "isLoading (st P)" and "\<not> fetch_fires s (st P)"
    and "\<not> timer_deps_changed s (st P) \<longrightarrow> \<not> interval P"
  shows "effect_pass s P = P\<lparr>interval := False\<rparr>"
proof (cases "timer_deps_changed s (st P)")
  case True
  then show ?thesis using assms(1,2) by (simp add: effect_pass_def Let_def timerEffect_def)
next
  case False
  then have "\<not> interval P" using assms(3) by simp
  then have "P\<lparr>interval := False\<rparr> = P" by simp
  then show ?thesis using False assms(2) by (simp add: effect_pass_def Let_def)
qed

lemma callFetch_t_fires:
  assumes "fetch_fires prev (st S)"
  shows "isLoading (st (callFetch_t S))" and "\<not> fetch_fires (st S) (st (callFetch_t S))"
    and "\<not> timer_deps_changed (st S) (st (callFetch_t S)) \<longrightarrow> timerEffect (st S) = NoTimer"
proof -
  from assms have g: "difficulty (st S) \<noteq> None" "truthy (category (st S))"
    by (simp_all add: fetch_fires_def)
  have a: "st (callFetch_t S) = (st S)\<lparr>isLoading := True, error := None, selectedAnswer := None,
                                isAnswered := False, question := None\<rparr>"
    using callFetch_guard [of "world_of S"] g by (simp add: callFetch_t_def world_of_def Let_def)
  show "isLoading (st (callFetch_t S))" by (simp add: a)
  show "\<not> fetch_fires (st S) (st (callFetch_t S))"
    by (simp add: a fetch_fires_def fetch_deps_changed_def)
  show "\<not> timer_deps_changed (st S) (st (callFetch_t S)) \<longrightarrow> timerEffect (st S) = NoTimer"
    by (simp add: a timer_deps_changed_def timerEffect_def)
qed

lemma effects_fetch:
  assumes f: "fetch_fires prev (st S)"
    and i: "interval S = (timerEffect prev = Interval)"
    and x: "\<not> (timer_deps_changed prev (st S) \<and> timerEffect (st S) = Expire)"
  shows "world_of (effects_t prev S) = effects prev (world_of S) \<and> timer_settled (effects_t prev S)
     \<and> st (effects_t prev S) = st (effect_pass prev S)"
proof -
  let ?C = "callFetch_t S"
  note c = callFetch_t_fires [OF f]
  obtain b where p: "effect_pass prev S = ?C\<lparr>interval := b\<rparr>"
    and nb: "timerEffect (st S) = NoTimer \<longrightarrow> \<not> b"
  proof (cases "timer_deps_changed prev (st S)")
    case False
    then have e: "timerEffect (st S) = timerEffect prev" by (rule timerEffect_deps)
    have "effect_pass prev S = ?C\<lparr>interval := interval S\<rparr>"
      using f False by (simp add: effect_pass_def Let_def callFetch_t_def)
    moreover have "timerEffect (st S) = NoTimer \<longrightarrow> \<not> interval S"
      using i e by simp
    ultimately show ?thesis using that by blast
  next
    case True
    with x have ne: "timerEffect (st S) \<noteq> Expire" by simp
    show ?thesis
    proof (cases "timerEffect (st S)")
      case NoTimer
      then have "effect_pass prev S = ?C\<lparr>interval := False\<rparr>"
        using f True by (simp add: effect_pass_def Let_def)
      then show ?thesis using that by blast
    next
      case Interval
      then have "effect_pass prev S = ?C\<lparr>interval := True\<rparr>"
        using f True by (simp add: effect_pass_def Let_def)
      then show ?thesis using that Interval by simp
    next
      case Expire
      with ne show ?thesis by simp
    qed
  qed
  have q: "effect_pass (st S) (?C\<lparr>interval := b\<rparr>) = ?C\<lparr>interval := False\<rparr>"
    using pass_while_loading [of "?C\<lparr>interval := b\<rparr>" "st S"] c nb by auto
  have e: "effects_t prev S = ?C\<lparr>interval := False\<rparr>"
    by (simp add: effects_t_def p q)
  have w: "world_of (?C\<lparr>interval := False\<rparr>) = callFetch (world_of S)"
    using callFetch_t_world [of S] by (simp add: world_of_def)
  have l: "isLoading (app (callFetch (world_of S)))"
    using c(1) by (simp add: st_callFetch_t)
  have r: "effects prev (world_of S) = callFetch (world_of S)"
    using f l by (simp add: effects_def fetchEffect_fires Let_def world_of_def
          timerEffect_run_def timerEffect_def)
  have s: "timer_settled (?C\<lparr>interval := False\<rparr>)"
    using c(1) by (simp add: timer_settled_def timerEffect_def)
  from e w r s show ?thesis by (simp add: p)
qed

lemma sim_effects:
  assumes "interval S = (timerEffect prev = Interval)" and "timerEffect prev \<noteq> Expire"
    and "\<not> (fetch_fires prev (st S) \<and> timer_deps_changed prev (st S)
            \<and> timerEffect (st S) = Expire)"
  shows "world_of (effects_t prev S) = effects prev (world_of S) \<and> timer_settled (effects_t prev S)
     \<and> st (effects_t prev S) = st (effect_pass prev S)"
proof (cases "fetch_fires prev (st S)")
  case True
  with assms(3) have "\<not> (timer_deps_changed prev (st S) \<and> timerEffect (st S) = Expire)"
    by simp
  from effects_fetch [OF True assms(1) this] show ?thesis .
next
  case False
  from effects_no_fetch [OF False assms(1,2)] show ?thesis .
qed


lemma handle_fire_expire:
  "\<not> (fetch_fires (app w) (app (handle ev w))
       \<and> timer_deps_changed (app w) (app (handle ev w))
       \<and> timerEffect (app (handle ev w)) = Expire)"
proof (cases ev)
  case (CategorySelect c)
  then show ?thesis by (simp add: handle_def handleCategorySelect_def timer_deps_changed_def)
next
  case (DifficultySelect d)
  then show ?thesis by (simp add: handle_def handleDifficultySelect_def timer_deps_changed_def)
next
  case (AnswerSelect k)
  then show ?thesis
    by (simp add: handle_def handleAnswerSelect_def Let_def fetch_fires_def fetch_deps_changed_def)
next
  case NextQuestion
  then show ?thesis
    using callFetch_keeps [of w] by (simp add: handle_def fetch_fires_def fetch_deps_changed_def)
next
  case ChangeCategory
  then show ?thesis by (simp add: handle_def resetCategory_def timerEffect_def)
next
  case ChangeDifficulty
  then show ?thesis by (simp add: handle_def resetDifficulty_def timerEffect_def)
next
  case TimerTick
  then show ?thesis by (simp add: handle_def tick_def fetch_fires_def fetch_deps_changed_def)
next
  case (FetchSettled n r)
  then show ?thesis
    by (simp add: handle_def fetchNewQuestion_settle_def fetch_fires_def fetch_deps_changed_def
          split: sum.splits)
qed

lemma sim_handle:
  assumes "timer_settled S" and "enabled_t ev S"
  shows "world_of (handle_t ev S) = handle ev (world_of S) \<and> interval (handle_t ev S) = interval S
     \<and> enabled ev (world_of S) \<and> st (handle_t ev S) = app (handle ev (world_of S))"
proof (cases "ev = TimerTick")
  case True
  with assms have "timerEffect (st S) = Interval"
    by (simp add: enabled_t_def timer_settled_def)
  then show ?thesis using True
    by (simp add: handle_t_def handle_def tick_def world_of_def enabled_def)
next
  case False
  then have h: "handle_t ev S = S\<lparr>st := app (handle ev (world_of S)),
                                pending := inflight (handle ev (world_of S))\<rparr>"
    by (cases ev) (simp_all add: handle_t_def Let_def)
  have e: "enabled ev (world_of S)"
    using False assms(2) by (cases ev) (simp_all add: enabled_t_def)
  show ?thesis using e by (simp add: h world_of_def)
qed

lemma sim_step:
  assumes "timer_settled S" and "enabled_t ev S"
  shows "enabled ev (world_of S) \<and> world_of (transition_t ev S) = transition ev (world_of S)
     \<and> timer_settled (transition_t ev S)"
proof -
  note h = sim_handle [OF assms]
  let ?S0 = "handle_t ev S"
  have st0: "st ?S0 = app (handle ev (world_of S))"
    using h by blast
  have i: "interval ?S0 = (timerEffect (st S) = Interval)"
    using h assms(1) by (simp add: timer_settled_def)
  have n: "timerEffect (st S) \<noteq> Expire"
    using assms(1) by (simp add: timer_settled_def)
  have x: "\<not> (fetch_fires (st S) (st ?S0) \<and> timer_deps_changed (st S) (st ?S0)
            \<and> timerEffect (st ?S0) = Expire)"
    using handle_fire_expire [of "world_of S" ev] by (simp add: st0 world_of_def)
  have a: "app (world_of S) = st S" by (simp add: world_of_def)
  from h have w0: "world_of ?S0 = handle ev (world_of S)" and en: "enabled ev (world_of S)"
    by blast+
  from sim_effects [OF i n x] show ?thesis
    by (simp add: transition_t_def transition_def w0 en a)
qed

lemma sim_run:
  "run_t evs S = Some S' \<Longrightarrow> timer_settled S \<Longrightarrow>
     run evs (world_of S) = Some (world_of S') \<and> timer_settled S'"
proof (induction evs arbitrary: S)
  case Nil
  then show ?case by simp
next
  case (Cons ev evs)
  from Cons.prems(1) have en: "enabled_t ev S" and r: "run_t evs (transition_t ev S) = Some S'"
    by (auto simp: step_t_def split: if_splits)
  note s = sim_step [OF Cons.prems(2) en]
  from Cons.IH [OF r] s show ?case by (simp add: step_def)
qed

lemma timer_settled_init: "timer_settled init_session"
  by (simp add: timer_settled_def init_session_def initial_def timerEffect_def)

lemma world_of_init: "world_of init_session = init_world"
  by (simp add: world_of_def init_session_def init_world_def)


lemma effect_pass_same: "effect_pass (st P) P = P"
  by (simp add: effect_pass_def Let_def fetch_fires_same timer_deps_changed_def)

lemma effects_settle:
  assumes "timer_settled S" and "enabled_t ev S"
  shows "effect_pass (st (effect_pass (st S) (handle_t ev S))) (transition_t ev S)
           = transition_t ev S"
proof -
  note h = sim_handle [OF assms]
  let ?S0 = "handle_t ev S"
  have st0: "st ?S0 = app (handle ev (world_of S))" using h by blast
  have i: "interval ?S0 = (timerEffect (st S) = Interval)"
    using h assms(1) by (simp add: timer_settled_def)
  have n: "timerEffect (st S) \<noteq> Expire"
    using assms(1) by (simp add: timer_settled_def)
  have x: "\<not> (fetch_fires (st S) (st ?S0) \<and> timer_deps_changed (st S) (st ?S0)
            \<and> timerEffect (st ?S0) = Expire)"
    using handle_fire_expire [of "world_of S" ev] by (simp add: st0 world_of_def)
  from sim_effects [OF i n x]
  have "st (effects_t (st S) ?S0) = st (effect_pass (st S) ?S0)" by blast
  then show ?thesis
    using effect_pass_same [of "effects_t (st S) ?S0"] by (simp add: transition_t_def)
qed

lemmas timed_defs = step_t_def enabled_t_def transition_t_def effects_t_def effect_pass_def
  handle_t_def callFetch_t_def world_of_def fetch_fires_def fetch_deps_changed_def
  timer_deps_changed_def init_session_def

lemma st_world_of: "app (world_of S) = st S" and pending_world_of: "inflight (world_of S) = pending S"
  by (simp_all add: world_of_def)

lemma run_t_late_result: "run_t late_result init_session = Some answered_at_ten"
  by (simp add: late_result_def answered_at_ten_def timed_defs model_defs hard_question_def
        eval_nat_numeral)

subsection \<open>Loading, and the start of a fetch\<close>










subsection \<open>Bodies that are rejected\<close>

lemma checkShape_null: "checkShape E JNull = Inl (nullRead E ''question'')"
  by (simp add: checkShape_def)

lemma checkShape_options_null:
  "property data ''question'' = Some (JStr t) \<Longrightarrow> property data ''options'' = Some JNull \<Longrightarrow>
     checkShape E data = Inl (nullRead E ''A'')"
  by (cases data) (simp_all add: checkShape_def typeof_object_def)

lemma checkShape_no_throw:
  assumes "data \<noteq> JNull"
    and "\<not> ((\<exists>t. property data ''question'' = Some (JStr t))
            \<and> property data ''options'' = Some JNull)"
  shows "\<exists>x. checkShape E data = Inr x"
proof (cases "property data ''question''")
  case None
  then show ?thesis using assms(1) by (simp add: checkShape_def)
next
  case (Some qv)
  show ?thesis
  proof (cases qv)
    case (JStr t)
    with Some assms(2) have o: "property data ''options'' \<noteq> Some JNull" by simp
    show ?thesis
    proof (cases "property data ''options''")
      case None
      then show ?thesis using assms(1) Some JStr by (simp add: checkShape_def typeof_object_def)
    next
      case (Some ov)
      with o have "ov \<noteq> JNull" by simp
      then show ?thesis
        using assms(1) \<open>property data ''question'' = Some qv\<close> JStr Some
        by (cases ov) (simp_all add: checkShape_def typeof_object_def split: option.splits)
    qed
  qed (use assms(1) Some in \<open>simp_all add: checkShape_def\<close>)
qed

lemma generateTriviaQuestion_ok_body:
  "ok r \<Longrightarrow> body r = Inr data \<Longrightarrow>
     generateTriviaQuestion E (Responded r) =
       (case checkShape E data of
          Inl m \<Rightarrow> Inl (''Could not load question. '' @ m)
        | Inr (Some q) \<Rightarrow> Inr q
        | Inr None \<Rightarrow> Inl ''Could not load question. The API returned data in an unexpected format.'')"
  by (simp add: generateTriviaQuestion_def tryBlock_def split: sum.splits option.splits)

lemma rejected_body_message:
  assumes "ok r" and "body r = Inr data"
    and "\<forall>q. generateTriviaQuestion E (Responded r) \<noteq> Inr q"
  shows "generateTriviaQuestion E (Responded r) =
       Inl (''Could not load question. '' @
            (if data = JNull then nullRead E ''question''
             else if (\<exists>t. property data ''question'' = Some (JStr t))
                     \<and> property data ''options'' = Some JNull
                  then nullRead E ''A''
             else ''The API returned data in an unexpected format.''))"
proof (cases "data = JNull")
  case True
  then show ?thesis
    by (simp add: generateTriviaQuestion_ok_body [OF assms(1,2)] checkShape_null)
next
  case False
  show ?thesis
  proof (cases "(\<exists>t. property data ''question'' = Some (JStr t))
                  \<and> property data ''options'' = Some JNull")
    case True
    then obtain t where "property data ''question'' = Some (JStr t)"
      and "property data ''options'' = Some JNull" by blast
    from checkShape_options_null [OF this, of E] True False show ?thesis
      by (simp add: generateTriviaQuestion_ok_body [OF assms(1,2)])
  next
    case nt: False
    from checkShape_no_throw [OF False nt, of E] obtain x where x: "checkShape E data = Inr x"
      by blast
    have "x = None"
    proof (cases x)
      case (Some q)
      then have "generateTriviaQuestion E (Responded r) = Inr q"
        by (simp add: generateTriviaQuestion_ok_body [OF assms(1,2)] x)
      with assms(3) show ?thesis by simp
    qed simp
    then have "generateTriviaQuestion E (Responded r) =
        Inl ''Could not load question. The API returned data in an unexpected format.''"
      by (simp add: generateTriviaQuestion_ok_body [OF assms(1,2)] x)
    moreover have "(if data = JNull then nullRead E ''question''
             else if (\<exists>t. property data ''question'' = Some (JStr t))
                     \<and> property data ''options'' = Some JNull
                  then nullRead E ''A''
             else ''The API returned data in an unexpected format.'')
        = ''The API returned data in an unexpected format.''"
      using False nt by auto
    ultimately show ?thesis by simp
  qed
qed

subsection \<open>What is shown after a result\<close>

lemma transition_FetchSettled_Inl_cells:
  "n < length (inflight w) \<Longrightarrow>
     question (app (transition (FetchSettled n (Inl e)) w)) = question (app w)
     \<and> error (app (transition (FetchSettled n (Inl e)) w))
         = Some ''Failed to generate a new question. Please try again.''
     \<and> \<not> isLoading (app (transition (FetchSettled n (Inl e)) w))
     \<and> category (app (transition (FetchSettled n (Inl e)) w)) = category (app w)
     \<and> difficulty (app (transition (FetchSettled n (Inl e)) w)) = difficulty (app w)"
  by (simp add: transition_def effects_def fetchEffect_def handle_def Let_def
        fetchNewQuestion_settle_def timerEffect_run_def)

lemma renderContent_after_success:
  "n < length (inflight w) \<Longrightarrow>
     renderContent (app (transition (FetchSettled n (Inr q)) w)) =
       (if \<not> truthy (category (app w)) then CategorySelectorView
        else if difficulty (app w) = None then DifficultySelectorView
        else if truthy (error (app w)) then ErrorView (the (error (app w)))
        else QuizCardView q)"
  by (simp add: transition_FetchSettled_Inr renderContent_def)

section \<open>Round outcome and score\<close>

text \<open>
  C1. In every state a session can reach: an answer \<open>k\<close> on an unanswered question marks the
  round answered with selection \<open>k\<close>, its outcome is correct-answer when \<open>k\<close> is the question's
  \<open>correctAnswer\<close> and incorrect-answer otherwise, and the score goes up by exactly 1 in the
  first case and stays in the second; the tick that takes \<open>timeLeft\<close> from 1 to 0 on an
  unanswered question marks the round answered with no selection (outcome timeout) and leaves
  the score; and once a round is answered it has an outcome, and neither a further answer nor
  a tick changes anything, so the outcome is the only one of the round.
\<close>

theorem round_outcome_and_score:
  assumes "run evs init_world = Some w"
  shows "(question (app w) = Some q \<and> \<not> isAnswered (app w) \<longrightarrow>
            app (transition (AnswerSelect k) w) =
              (app w)\<lparr>selectedAnswer := Some k, isAnswered := True,
                      score := (if k = correctAnswer q then score (app w) + 1 else score (app w))\<rparr>
            \<and> outcome_of (app (transition (AnswerSelect k) w)) =
                Some (if k = correctAnswer q then CorrectAnswer else IncorrectAnswer)
            \<and> inflight (transition (AnswerSelect k) w) = inflight w)
       \<and> (timerEffect (app w) = Interval \<and> timeLeft (app w) = 1 \<longrightarrow>
            transition TimerTick w = w\<lparr>app := (app w)\<lparr>timeLeft := 0, isAnswered := True\<rparr>\<rparr>
            \<and> selectedAnswer (app (transition TimerTick w)) = None
            \<and> outcome_of (app (transition TimerTick w)) = Some Timeout
            \<and> score (app (transition TimerTick w)) = score (app w))
       \<and> (isAnswered (app w) \<longrightarrow>
            outcome_of (app w) \<noteq> None
            \<and> transition (AnswerSelect k) w = w \<and> transition TimerTick w = w)"
proof -
  have inv: "sel_inv (app w)"
    using sel_inv_run [OF assms sel_inv_initial] .
  have a: "question (app w) = Some q \<and> \<not> isAnswered (app w) \<longrightarrow>
            app (transition (AnswerSelect k) w) =
              (app w)\<lparr>selectedAnswer := Some k, isAnswered := True,
                      score := (if k = correctAnswer q then score (app w) + 1 else score (app w))\<rparr>
            \<and> outcome_of (app (transition (AnswerSelect k) w)) =
                Some (if k = correctAnswer q then CorrectAnswer else IncorrectAnswer)
            \<and> inflight (transition (AnswerSelect k) w) = inflight w"
    by (auto simp: transition_AnswerSelect handleAnswerSelect_def outcome_of_def Let_def)
  have b: "timerEffect (app w) = Interval \<and> timeLeft (app w) = 1 \<longrightarrow>
            transition TimerTick w = w\<lparr>app := (app w)\<lparr>timeLeft := 0, isAnswered := True\<rparr>\<rparr>
            \<and> selectedAnswer (app (transition TimerTick w)) = None
            \<and> outcome_of (app (transition TimerTick w)) = Some Timeout
            \<and> score (app (transition TimerTick w)) = score (app w)"
    using inv
    by (auto simp: transition_TimerTick tick_def timerEffect_run_def timerEffect_def
          outcome_of_def sel_inv_def split: if_splits)
  have c: "isAnswered (app w) \<longrightarrow>
            outcome_of (app w) \<noteq> None
            \<and> transition (AnswerSelect k) w = w \<and> transition TimerTick w = w"
    by (auto simp: transition_AnswerSelect transition_TimerTick handleAnswerSelect_def
          tick_def timerEffect_run_def timerEffect_def outcome_of_def split: option.splits)
  from a b c show ?thesis by blast
qed

text \<open>
  The scenarios of the specification on the question \<open>2+2?\<close>: \<open>B\<close> scores, \<open>C\<close> does not, the
  last tick times the round out, and the answered round ignores an answer and a tick.
\<close>

theorem round_outcome_and_score_witness:
  "score (app (transition (AnswerSelect B) awaiting_answer)) = 1
   \<and> outcome_of (app (transition (AnswerSelect B) awaiting_answer)) = Some CorrectAnswer
   \<and> score (app (transition (AnswerSelect C) awaiting_answer)) = 0
   \<and> outcome_of (app (transition (AnswerSelect C) awaiting_answer)) = Some IncorrectAnswer
   \<and> isAnswered (app (transition TimerTick last_second))
   \<and> selectedAnswer (app (transition TimerTick last_second)) = None
   \<and> outcome_of (app (transition TimerTick last_second)) = Some Timeout
   \<and> score (app (transition TimerTick last_second)) = 0
   \<and> transition (AnswerSelect A) answered_wrong = answered_wrong
   \<and> transition TimerTick answered_wrong = answered_wrong"
proof -
  have h1: "question (app awaiting_answer) = Some sample_question
      \<and> \<not> isAnswered (app awaiting_answer)"
    by (simp add: awaiting_answer_def initial_def)
  have h2: "timerEffect (app last_second) = Interval \<and> timeLeft (app last_second) = 1"
    by (simp add: last_second_def awaiting_answer_def initial_def timerEffect_def)
  have h3: "isAnswered (app answered_wrong)"
    by (simp add: answered_wrong_def)
  have c: "correctAnswer sample_question = B" "score (app awaiting_answer) = 0"
    "score (app last_second) = 0"
    by (simp_all add: sample_question_def awaiting_answer_def last_second_def initial_def)
  note tB = round_outcome_and_score [OF run_round_started, where q = sample_question and k = B]
  note tC = round_outcome_and_score [OF run_round_started, where q = sample_question and k = C]
  note tT = round_outcome_and_score [OF run_last_second, where q = sample_question and k = A]
  note tA = round_outcome_and_score [OF run_answered_wrong, where q = sample_question and k = A]
  from tB h1 have aB: "app (transition (AnswerSelect B) awaiting_answer) =
      (app awaiting_answer)\<lparr>selectedAnswer := Some B, isAnswered := True,
         score := (if B = correctAnswer sample_question then score (app awaiting_answer) + 1
                   else score (app awaiting_answer))\<rparr>"
    and oB: "outcome_of (app (transition (AnswerSelect B) awaiting_answer)) =
      Some (if B = correctAnswer sample_question then CorrectAnswer else IncorrectAnswer)"
    by blast+
  have 1: "score (app (transition (AnswerSelect B) awaiting_answer)) = 1
   \<and> outcome_of (app (transition (AnswerSelect B) awaiting_answer)) = Some CorrectAnswer"
    using oB by (simp add: aB c(2)) (simp add: c(1))
  from tC h1 have aC: "app (transition (AnswerSelect C) awaiting_answer) =
      (app awaiting_answer)\<lparr>selectedAnswer := Some C, isAnswered := True,
         score := (if C = correctAnswer sample_question then score (app awaiting_answer) + 1
                   else score (app awaiting_answer))\<rparr>"
    and oC: "outcome_of (app (transition (AnswerSelect C) awaiting_answer)) =
      Some (if C = correctAnswer sample_question then CorrectAnswer else IncorrectAnswer)"
    by blast+
  have 2: "score (app (transition (AnswerSelect C) awaiting_answer)) = 0
   \<and> outcome_of (app (transition (AnswerSelect C) awaiting_answer)) = Some IncorrectAnswer"
    using oC by (simp add: aC c(2)) (simp add: c(1))
  from tT h2 have aT: "transition TimerTick last_second =
      last_second\<lparr>app := (app last_second)\<lparr>timeLeft := 0, isAnswered := True\<rparr>\<rparr>"
    and sT: "selectedAnswer (app (transition TimerTick last_second)) = None"
    and oT: "outcome_of (app (transition TimerTick last_second)) = Some Timeout"
    and cT: "score (app (transition TimerTick last_second)) = score (app last_second)"
    by blast+
  have 3: "isAnswered (app (transition TimerTick last_second))
   \<and> selectedAnswer (app (transition TimerTick last_second)) = None
   \<and> outcome_of (app (transition TimerTick last_second)) = Some Timeout
   \<and> score (app (transition TimerTick last_second)) = 0"
    by (simp add: sT oT cT c) (simp add: aT)
  from tA h3 have 4: "transition (AnswerSelect A) answered_wrong = answered_wrong
   \<and> transition TimerTick answered_wrong = answered_wrong"
    by blast
  from 1 2 3 4 show ?thesis by blast
qed

section \<open>Selecting a category or a difficulty\<close>

text \<open>
  C2, as amended. Selecting a category sets the category, clears the difficulty and resets
  the score to 0, and leaves the current question, the countdown and the requests in flight
  as they are. Selecting a difficulty resets the score to 0 and sets the difficulty in the
  handler, before any fetch begins; where the control is offered (a category is set and no
  difficulty is), the fetch that follows clears the question, the selection, the answered
  flag and the error and sets loading, which stops the timer. Change Category and Change
  Difficulty clear the question, reset the score and leave no timer running.
\<close>

theorem selection_resets_score:
  "score (app (transition (CategorySelect c) w)) = 0
   \<and> category (app (transition (CategorySelect c) w)) = Some c
   \<and> difficulty (app (transition (CategorySelect c) w)) = None
   \<and> question (app (transition (CategorySelect c) w)) = question (app w)
   \<and> timeLeft (app (transition (CategorySelect c) w)) = timeLeft (app w)
   \<and> inflight (transition (CategorySelect c) w) = inflight w
   \<and> app (handle (DifficultySelect d) w) = (app w)\<lparr>score := 0, difficulty := Some d\<rparr>
   \<and> inflight (handle (DifficultySelect d) w) = inflight w
   \<and> (enabled (DifficultySelect d) w \<longrightarrow>
        app (transition (DifficultySelect d) w) =
          (app w)\<lparr>score := 0, difficulty := Some d, isLoading := True, error := None,
                  selectedAnswer := None, isAnswered := False, question := None\<rparr>
        \<and> timerEffect (app (transition (DifficultySelect d) w)) = NoTimer
        \<and> inflight (transition (DifficultySelect d) w)
            = inflight w @ [(d, the (category (app w)))])
   \<and> question (app (transition ChangeCategory w)) = None
   \<and> score (app (transition ChangeCategory w)) = 0
   \<and> timerEffect (app (transition ChangeCategory w)) = NoTimer
   \<and> question (app (transition ChangeDifficulty w)) = None
   \<and> score (app (transition ChangeDifficulty w)) = 0
   \<and> timerEffect (app (transition ChangeDifficulty w)) = NoTimer"
proof -
  have 1: "score (app (transition (CategorySelect c) w)) = 0
   \<and> category (app (transition (CategorySelect c) w)) = Some c
   \<and> difficulty (app (transition (CategorySelect c) w)) = None
   \<and> question (app (transition (CategorySelect c) w)) = question (app w)
   \<and> timeLeft (app (transition (CategorySelect c) w)) = timeLeft (app w)
   \<and> inflight (transition (CategorySelect c) w) = inflight w"
    by (simp add: transition_CategorySelect timerEffect_run_def handleCategorySelect_def)
  have 2: "app (handle (DifficultySelect d) w) = (app w)\<lparr>score := 0, difficulty := Some d\<rparr>
   \<and> inflight (handle (DifficultySelect d) w) = inflight w"
    by (simp add: handle_def handleDifficultySelect_def)
  have 3: "enabled (DifficultySelect d) w \<longrightarrow>
        app (transition (DifficultySelect d) w) =
          (app w)\<lparr>score := 0, difficulty := Some d, isLoading := True, error := None,
                  selectedAnswer := None, isAnswered := False, question := None\<rparr>
        \<and> timerEffect (app (transition (DifficultySelect d) w)) = NoTimer
        \<and> inflight (transition (DifficultySelect d) w)
            = inflight w @ [(d, the (category (app w)))]"
    by (simp add: transition_DifficultySelect timerEffect_def)
  have 4: "question (app (transition ChangeCategory w)) = None
   \<and> score (app (transition ChangeCategory w)) = 0
   \<and> timerEffect (app (transition ChangeCategory w)) = NoTimer
   \<and> question (app (transition ChangeDifficulty w)) = None
   \<and> score (app (transition ChangeDifficulty w)) = 0
   \<and> timerEffect (app (transition ChangeDifficulty w)) = NoTimer"
    by (simp add: transition_def effects_def fetchEffect_def handle_def Let_def
          resetCategory_def resetDifficulty_def timerEffect_run_def timerEffect_def)
  from 1 2 3 4 show ?thesis by blast
qed

text \<open>The amended statement at the difficulty screen of a session whose state still holds a
  question.\<close>

theorem selection_resets_score_witness:
  "enabled (DifficultySelect Hard)
      \<lparr>app = initial\<lparr>category := Some ''History'', question := Some sample_question\<rparr>,
       inflight = []\<rparr>
   \<and> app (transition (DifficultySelect Hard)
      \<lparr>app = initial\<lparr>category := Some ''History'', question := Some sample_question\<rparr>,
       inflight = []\<rparr>)
     = initial\<lparr>category := Some ''History'', difficulty := Some Hard, isLoading := True\<rparr>
   \<and> inflight (transition (DifficultySelect Hard)
      \<lparr>app = initial\<lparr>category := Some ''History'', question := Some sample_question\<rparr>,
       inflight = []\<rparr>) = [(Hard, ''History'')]"
  using selection_resets_score [of "''History''"
      "\<lparr>app = initial\<lparr>category := Some ''History'', question := Some sample_question\<rparr>,
        inflight = []\<rparr>" Hard]
  by (simp add: enabled_def renderContent_def truthy_def initial_def)

text \<open>
  The claim as stated fails: a request is in flight when the category is changed, its question
  arrives on the category screen, and selecting a category then keeps that question, with its
  timer running.
\<close>

theorem categorySelect_keeps_question_counterexample:
  "run [CategorySelect ''Science'', DifficultySelect Easy, ChangeCategory,
        FetchSettled 0 (Inr sample_question)] init_world
     = Some \<lparr>app = initial\<lparr>question := Some sample_question\<rparr>, inflight = []\<rparr>
   \<and> enabled (CategorySelect ''History'')
         \<lparr>app = initial\<lparr>question := Some sample_question\<rparr>, inflight = []\<rparr>
   \<and> question (app (transition (CategorySelect ''History'')
         \<lparr>app = initial\<lparr>question := Some sample_question\<rparr>, inflight = []\<rparr>))
       = Some sample_question
   \<and> timerEffect (app (transition (CategorySelect ''History'')
         \<lparr>app = initial\<lparr>question := Some sample_question\<rparr>, inflight = []\<rparr>))
       = Interval"
  by (simp add: model_defs)

section \<open>Starting a fetch, and its success\<close>




section \<open>Answer submission\<close>

text \<open>
  C4. Answer submission is idempotent, in both versions of the controller: on an unanswered
  round the first \<open>handleAnswerSelect k\<close> registers the selection \<open>k\<close> and marks the round
  answered, and any further \<open>handleAnswerSelect\<close> in the same round leaves the whole state,
  and the whole session, unchanged.
\<close>

theorem handleAnswerSelect_idempotent:
  "(\<not> isAnswered s \<longrightarrow>
      selectedAnswer (handleAnswerSelect k s) = Some k \<and> isAnswered (handleAnswerSelect k s))
   \<and> handleAnswerSelect k' (handleAnswerSelect k s) = handleAnswerSelect k s
   \<and> transition (AnswerSelect k') (transition (AnswerSelect k) w)
       = transition (AnswerSelect k) w
   \<and> transition_p0 E (AnswerSelect_p0 k') (transition_p0 E (AnswerSelect_p0 k) c)
       = transition_p0 E (AnswerSelect_p0 k) c"
  by (simp add: transition_AnswerSelect transition_p0_def handle_p0_def
        handleAnswerSelect_def Let_def)

text \<open>The sample round, answered \<open>B\<close> and then \<open>C\<close>.\<close>

theorem handleAnswerSelect_idempotent_witness:
  "\<not> isAnswered (app awaiting_answer)
   \<and> selectedAnswer (handleAnswerSelect B (app awaiting_answer)) = Some B
   \<and> isAnswered (handleAnswerSelect B (app awaiting_answer))
   \<and> handleAnswerSelect C (handleAnswerSelect B (app awaiting_answer))
       = handleAnswerSelect B (app awaiting_answer)"
  using handleAnswerSelect_idempotent [where s = "app awaiting_answer" and k = B and k' = C]
  by (simp add: awaiting_answer_def initial_def)

section \<open>The timer after the answer\<close>

text \<open>
  C5, as amended. In a state a session can reach that is answered, or has no question, or is
  loading, no interval is registered (the effect's clean-up has cleared it), so the
  interval's callback cannot be called; no event that can happen decreases \<open>timeLeft\<close>:
  it keeps its value, unless the event is the arrival of a question, which sets it to the
  full duration, on an answered round as well and without changing the answered flag; and
  over any further events of the session, as long as no question arrives, \<open>timeLeft\<close> keeps
  the value it has and no interval is registered.
\<close>

theorem timer_frozen_when_answered:
  assumes "run_t evs init_session = Some S"
    and "question (st S) = None \<or> isAnswered (st S) \<or> isLoading (st S)"
  shows "\<not> interval S \<and> step_t TimerTick S = None
     \<and> (enabled_t ev S \<longrightarrow>
          timeLeft (st S) \<le> timeLeft (st (transition_t ev S))
          \<and> (timeLeft (st (transition_t ev S)) = timeLeft (st S)
             \<or> (\<exists>n q. ev = FetchSettled n (Inr q))
               \<and> timeLeft (st (transition_t ev S)) = TIME_LIMIT))
     \<and> (run_t evs' S = Some S' \<and> list_all (\<lambda>ev. \<not> fetch_success ev) evs' \<longrightarrow>
          timeLeft (st S') = timeLeft (st S) \<and> \<not> interval S')
     \<and> (n < length (pending S) \<longrightarrow>
          timeLeft (st (transition_t (FetchSettled n (Inr q)) S)) = TIME_LIMIT
          \<and> isAnswered (st (transition_t (FetchSettled n (Inr q)) S)) = isAnswered (st S))"
proof -
  from sim_run [OF assms(1) timer_settled_init]
  have r: "run evs init_world = Some (world_of S)" and ts: "timer_settled S"
    by (simp_all add: world_of_init)
  have nt: "timerEffect (st S) = NoTimer"
    using assms(2) by (simp add: timerEffect_def)
  have ni: "\<not> interval S"
    using ts nt by (simp add: timer_settled_def)
  have ns: "step_t TimerTick S = None"
    using ni by (simp add: step_t_def enabled_t_def)
  have ti: "time_inv (st S)"
    using time_inv_run [OF r time_inv_initial] by (simp add: st_world_of)
  have li: "load_inv (app (world_of S))"
    using load_inv_run [OF r load_inv_initial] .
  have id: "timer_idle (app (world_of S))"
    using assms(2) by (simp add: timer_idle_def st_world_of)
  have one: "enabled_t ev S \<longrightarrow>
          timeLeft (st S) \<le> timeLeft (st (transition_t ev S))
          \<and> (timeLeft (st (transition_t ev S)) = timeLeft (st S)
             \<or> (\<exists>n q. ev = FetchSettled n (Inr q))
               \<and> timeLeft (st (transition_t ev S)) = TIME_LIMIT)"
  proof
    assume en: "enabled_t ev S"
    from sim_step [OF ts en]
    have w: "world_of (transition_t ev S) = transition ev (world_of S)" by blast
    then have e: "st (transition_t ev S) = app (transition ev (world_of S))"
      using st_world_of [of "transition_t ev S"] by simp
    have "timerEffect (app (world_of S)) \<noteq> Interval"
      using nt by (simp add: st_world_of)
    from timeLeft_transition_cases [OF this, of ev]
    have c: "timeLeft (st (transition_t ev S)) = timeLeft (st S)
             \<or> (\<exists>n q. ev = FetchSettled n (Inr q))
               \<and> timeLeft (st (transition_t ev S)) = TIME_LIMIT"
      by (simp add: e st_world_of)
    then have "timeLeft (st S) \<le> timeLeft (st (transition_t ev S))"
      using ti by (auto simp: time_inv_def)
    with c show "timeLeft (st S) \<le> timeLeft (st (transition_t ev S))
          \<and> (timeLeft (st (transition_t ev S)) = timeLeft (st S)
             \<or> (\<exists>n q. ev = FetchSettled n (Inr q))
               \<and> timeLeft (st (transition_t ev S)) = TIME_LIMIT)" by blast
  qed
  have many: "run_t evs' S = Some S' \<and> list_all (\<lambda>ev. \<not> fetch_success ev) evs' \<longrightarrow>
          timeLeft (st S') = timeLeft (st S) \<and> \<not> interval S'"
  proof
    assume a: "run_t evs' S = Some S' \<and> list_all (\<lambda>ev. \<not> fetch_success ev) evs'"
    from sim_run [of evs' S S'] a ts
    have r': "run evs' (world_of S) = Some (world_of S')" and ts': "timer_settled S'"
      by blast+
    from frozen_run [OF r' li id] a
    have f: "timeLeft (app (world_of S')) = timeLeft (app (world_of S))"
      and i: "timer_idle (app (world_of S'))" by blast+
    from i have "timerEffect (st S') = NoTimer"
      by (simp add: timer_idle_def timerEffect_def st_world_of)
    with ts' have "\<not> interval S'" by (simp add: timer_settled_def)
    with f show "timeLeft (st S') = timeLeft (st S) \<and> \<not> interval S'"
      by (simp add: st_world_of)
  qed
  have late: "n < length (pending S) \<longrightarrow>
          timeLeft (st (transition_t (FetchSettled n (Inr q)) S)) = TIME_LIMIT
          \<and> isAnswered (st (transition_t (FetchSettled n (Inr q)) S)) = isAnswered (st S)"
  proof
    assume n: "n < length (pending S)"
    then have en: "enabled_t (FetchSettled n (Inr q)) S"
      by (simp add: enabled_t_def enabled_def pending_world_of)
    from sim_step [OF ts en]
    have w: "world_of (transition_t (FetchSettled n (Inr q)) S)
        = transition (FetchSettled n (Inr q)) (world_of S)" by blast
    have e: "st (transition_t (FetchSettled n (Inr q)) S)
        = app (transition (FetchSettled n (Inr q)) (world_of S))"
      using st_world_of [of "transition_t (FetchSettled n (Inr q)) S"] w by simp
    from n have "n < length (inflight (world_of S))" by (simp add: pending_world_of)
    from transition_FetchSettled_Inr [OF this, of q]
    show "timeLeft (st (transition_t (FetchSettled n (Inr q)) S)) = TIME_LIMIT
          \<and> isAnswered (st (transition_t (FetchSettled n (Inr q)) S)) = isAnswered (st S)"
      by (simp add: e st_world_of)
  qed
  from ni ns one many late show ?thesis by blast
qed

text \<open>The round answered at ten seconds: no interval, no tick; an answer, Change Difficulty and
  a new difficulty leave the countdown at ten; the late question sets it to fifteen.\<close>

theorem timer_frozen_when_answered_witness:
  "isAnswered (st answered_at_ten)
   \<and> \<not> interval answered_at_ten
   \<and> step_t TimerTick answered_at_ten = None
   \<and> run_t [AnswerSelect A, ChangeDifficulty, DifficultySelect Medium] answered_at_ten
       = Some \<lparr>st = initial\<lparr>category := Some ''Science'', difficulty := Some Medium,
                            isLoading := True, timeLeft := 10\<rparr>,
               pending = [(Easy, ''Science''), (Medium, ''Science'')], interval = False\<rparr>
   \<and> timeLeft (st (transition_t (FetchSettled 0 (Inr sample_question)) answered_at_ten)) = 15
   \<and> enabled_t ChangeDifficulty answered_at_ten
   \<and> timeLeft (st (transition_t ChangeDifficulty answered_at_ten)) = 10"
proof -
  let ?S' = "\<lparr>st = initial\<lparr>category := Some ''Science'', difficulty := Some Medium,
                            isLoading := True, timeLeft := 10\<rparr>,
               pending = [(Easy, ''Science''), (Medium, ''Science'')], interval = False\<rparr>"
  have h: "isAnswered (st answered_at_ten)" by (simp add: answered_at_ten_def)
  then have c: "question (st answered_at_ten) = None \<or> isAnswered (st answered_at_ten)
      \<or> isLoading (st answered_at_ten)" by simp
  have r: "run_t [AnswerSelect A, ChangeDifficulty, DifficultySelect Medium] answered_at_ten
       = Some ?S'"
    by (simp add: answered_at_ten_def timed_defs model_defs)
  have l: "list_all (\<lambda>ev. \<not> fetch_success ev) [AnswerSelect A, ChangeDifficulty, DifficultySelect Medium]"
    by (simp add: fetch_success_def)
  have n: "0 < length (pending answered_at_ten)" by (simp add: answered_at_ten_def)
  note t = timer_frozen_when_answered [OF run_t_late_result c, where ev = ChangeDifficulty
      and evs' = "[AnswerSelect A, ChangeDifficulty, DifficultySelect Medium]" and S' = ?S'
      and n = 0 and q = sample_question]
  from t n have "timeLeft (st (transition_t (FetchSettled 0 (Inr sample_question))
      answered_at_ten)) = TIME_LIMIT" by blast
  then have e: "timeLeft (st (transition_t (FetchSettled 0 (Inr sample_question))
      answered_at_ten)) = 15" by (simp add: TIME_LIMIT_def)
  have en: "enabled_t ChangeDifficulty answered_at_ten"
    by (simp add: answered_at_ten_def enabled_t_def enabled_def world_of_def truthy_def)
  from t en have "timeLeft (st (transition_t ChangeDifficulty answered_at_ten))
        = timeLeft (st answered_at_ten)
      \<or> (\<exists>n q. ChangeDifficulty = FetchSettled n (Inr q))" by blast
  then have k: "timeLeft (st (transition_t ChangeDifficulty answered_at_ten)) = 10"
    by (simp add: answered_at_ten_def)
  from t h r e en k show ?thesis by blast
qed

text \<open>
  The claim as stated fails: the round is answered at ten seconds while an earlier request
  is still in flight; its question arrives, and the countdown of the answered round reads
  fifteen.
\<close>

theorem late_result_resets_countdown_counterexample:
  "run_t late_result init_session = Some answered_at_ten
   \<and> isAnswered (st answered_at_ten) \<and> timeLeft (st answered_at_ten) = 10
   \<and> enabled_t (FetchSettled 0 (Inr sample_question)) answered_at_ten
   \<and> isAnswered (st (transition_t (FetchSettled 0 (Inr sample_question)) answered_at_ten))
   \<and> timeLeft (st (transition_t (FetchSettled 0 (Inr sample_question)) answered_at_ten)) = 15"
  by (simp add: run_t_late_result)
     (simp add: answered_at_ten_def timed_defs model_defs)

section \<open>Validation of the response\<close>

text \<open>
  C6, as amended. \<open>generateTriviaQuestion\<close> returns a question exactly when the response is
  a success whose body parses to a value with a string \<open>question\<close> (the empty string
  included), an \<open>options\<close> object whose members \<open>A\<close>, \<open>B\<close>, \<open>C\<close>, \<open>D\<close> are truthy, and a
  \<open>correctAnswer\<close> that is one of the strings \<open>A\<close>, \<open>B\<close>, \<open>C\<close>, \<open>D\<close>. Every failure is an
  \<open>Error\<close> whose message starts with \<open>Could not load question. \<close>. For a success whose
  body parses and is not accepted, the prefix is followed by the engine's message for
  reading a property of \<open>null\<close> when the body is \<open>null\<close>, or when \<open>question\<close> is a string
  and \<open>options\<close> is \<open>null\<close>, and by \<open>The API returned data in an unexpected format.\<close> for
  every other body. For a success whose body does not parse, and for a fetch that rejects,
  the prefix is followed by the message of that error.
\<close>

theorem generateTriviaQuestion_accepts_iff:
  "(generateTriviaQuestion E out = Inr q \<longleftrightarrow>
      (\<exists>r data kvs. out = Responded r \<and> ok r \<and> body r = Inr data
         \<and> property data ''question'' = Some (JStr (question_text q))
         \<and> property data ''options'' = Some (JObj kvs) \<and> options q = JObj kvs
         \<and> truthy_prop (map_of kvs ''A'') \<and> truthy_prop (map_of kvs ''B'')
         \<and> truthy_prop (map_of kvs ''C'') \<and> truthy_prop (map_of kvs ''D'')
         \<and> answerKey_of (property data ''correctAnswer'') = Some (correctAnswer q)))
   \<and> (generateTriviaQuestion E out = Inl m \<longrightarrow>
        (\<exists>m'. m = ''Could not load question. '' @ m'))
   \<and> (out = Responded r \<and> ok r \<and> body r = Inr data
        \<and> (\<forall>q'. generateTriviaQuestion E out \<noteq> Inr q') \<longrightarrow>
        generateTriviaQuestion E out =
          Inl (''Could not load question. '' @
               (if data = JNull then nullRead E ''question''
                else if (\<exists>t. property data ''question'' = Some (JStr t))
                        \<and> property data ''options'' = Some JNull
                     then nullRead E ''A''
                else ''The API returned data in an unexpected format.'')))
   \<and> (out = Responded r \<and> ok r \<and> body r = Inl e \<longrightarrow>
        generateTriviaQuestion E out = Inl (''Could not load question. '' @ e))
   \<and> (out = Rejected e \<longrightarrow>
        generateTriviaQuestion E out = Inl (''Could not load question. '' @ e))"
proof -
  have 1: "generateTriviaQuestion E out = Inr q \<longleftrightarrow>
      (\<exists>r data kvs. out = Responded r \<and> ok r \<and> body r = Inr data
         \<and> property data ''question'' = Some (JStr (question_text q))
         \<and> property data ''options'' = Some (JObj kvs) \<and> options q = JObj kvs
         \<and> truthy_prop (map_of kvs ''A'') \<and> truthy_prop (map_of kvs ''B'')
         \<and> truthy_prop (map_of kvs ''C'') \<and> truthy_prop (map_of kvs ''D'')
         \<and> answerKey_of (property data ''correctAnswer'') = Some (correctAnswer q))"
  proof -
    have "generateTriviaQuestion E out = Inr q \<longleftrightarrow>
       (\<exists>r data. out = Responded r \<and> ok r \<and> body r = Inr data \<and> checkShape E data = Inr (Some q))"
      by (auto simp: generateTriviaQuestion_def tryBlock_def
            split: fetch_outcome.splits sum.splits option.splits if_splits)
    then show ?thesis by (simp add: checkShape_Some_iff)
  qed
  have 2: "generateTriviaQuestion E out = Inl m \<longrightarrow>
        (\<exists>m'. m = ''Could not load question. '' @ m')"
    by (auto simp: generateTriviaQuestion_def split: sum.splits)
  have 3: "out = Responded r \<and> ok r \<and> body r = Inr data
        \<and> (\<forall>q'. generateTriviaQuestion E out \<noteq> Inr q') \<longrightarrow>
        generateTriviaQuestion E out =
          Inl (''Could not load question. '' @
               (if data = JNull then nullRead E ''question''
                else if (\<exists>t. property data ''question'' = Some (JStr t))
                        \<and> property data ''options'' = Some JNull
                     then nullRead E ''A''
                else ''The API returned data in an unexpected format.''))"
    using rejected_body_message [of r data E] by blast
  have 4: "out = Responded r \<and> ok r \<and> body r = Inl e \<longrightarrow>
        generateTriviaQuestion E out = Inl (''Could not load question. '' @ e)"
    by (simp add: generateTriviaQuestion_def tryBlock_def)
  have 5: "out = Rejected e \<longrightarrow>
        generateTriviaQuestion E out = Inl (''Could not load question. '' @ e)"
    by (simp add: generateTriviaQuestion_def tryBlock_def)
  from 1 2 3 4 5 show ?thesis by blast
qed

text \<open>The payload of the specification's scenarios is accepted; without \<open>correctAnswer\<close> it is
  rejected as an unexpected format; the body \<open>null\<close>, and \<open>options: null\<close>, are rejected with
  the engine's message.\<close>

theorem generateTriviaQuestion_accepts_iff_witness:
  "generateTriviaQuestion sample_engine
      (Responded \<lparr>ok = True, status = 200,
         body = Inr (JObj [(''question'', JStr ''2+2?''),
                           (''options'', options sample_question),
                           (''correctAnswer'', JStr ''B'')])\<rparr>) = Inr sample_question
   \<and> generateTriviaQuestion sample_engine
      (Responded \<lparr>ok = True, status = 200,
         body = Inr (JObj [(''question'', JStr ''2+2?''),
                           (''options'', options sample_question)])\<rparr>)
     = Inl ''Could not load question. The API returned data in an unexpected format.''
   \<and> generateTriviaQuestion sample_engine
      (Responded \<lparr>ok = True, status = 200, body = Inr JNull\<rparr>)
     = Inl ''Could not load question. Cannot read properties of null''
   \<and> generateTriviaQuestion sample_engine
      (Responded \<lparr>ok = True, status = 200,
         body = Inr (JObj [(''question'', JStr ''2+2?''), (''options'', JNull)])\<rparr>)
     = Inl ''Could not load question. Cannot read properties of null''"
proof -
  let ?d1 = "JObj [(''question'', JStr ''2+2?''), (''options'', options sample_question),
                   (''correctAnswer'', JStr ''B'')]"
  let ?d2 = "JObj [(''question'', JStr ''2+2?''), (''options'', options sample_question)]"
  let ?d4 = "JObj [(''question'', JStr ''2+2?''), (''options'', JNull)]"
  let ?r1 = "\<lparr>ok = True, status = 200, body = Inr ?d1\<rparr>"
  let ?r2 = "\<lparr>ok = True, status = 200, body = Inr ?d2\<rparr>"
  let ?r3 = "\<lparr>ok = True, status = 200, body = Inr JNull\<rparr>"
  let ?r4 = "\<lparr>ok = True, status = 200, body = Inr ?d4\<rparr>"
  let ?kvs = "[(''A'', JStr ''3''), (''B'', JStr ''4''), (''C'', JStr ''5''), (''D'', JStr ''6'')]"
  have a: "\<exists>r data kvs. Responded ?r1 = Responded r \<and> ok r \<and> body r = Inr data
         \<and> property data ''question'' = Some (JStr (question_text sample_question))
         \<and> property data ''options'' = Some (JObj kvs) \<and> options sample_question = JObj kvs
         \<and> truthy_prop (map_of kvs ''A'') \<and> truthy_prop (map_of kvs ''B'')
         \<and> truthy_prop (map_of kvs ''C'') \<and> truthy_prop (map_of kvs ''D'')
         \<and> answerKey_of (property data ''correctAnswer'') = Some (correctAnswer sample_question)"
    by (rule exI [of _ ?r1], rule exI [of _ ?d1], rule exI [of _ ?kvs])
       (simp add: sample_question_def truthy_prop_def answerKey_of_def)
  have n2: "\<forall>q'. generateTriviaQuestion sample_engine (Responded ?r2) \<noteq> Inr q'"
    by (simp add: generateTriviaQuestion_def tryBlock_def checkShape_def typeof_object_def
          sample_question_def truthy_prop_def answerKey_of_def)
  have n3: "\<forall>q'. generateTriviaQuestion sample_engine (Responded ?r3) \<noteq> Inr q'"
    by (simp add: generateTriviaQuestion_def tryBlock_def checkShape_def)
  have n4: "\<forall>q'. generateTriviaQuestion sample_engine (Responded ?r4) \<noteq> Inr q'"
    by (simp add: generateTriviaQuestion_def tryBlock_def checkShape_def typeof_object_def)
  note i1 = generateTriviaQuestion_accepts_iff [where E = sample_engine and out = "Responded ?r1"
      and q = sample_question]
  note i2 = generateTriviaQuestion_accepts_iff [where E = sample_engine and out = "Responded ?r2"
      and r = ?r2 and data = ?d2]
  note i3 = generateTriviaQuestion_accepts_iff [where E = sample_engine and out = "Responded ?r3"
      and r = ?r3 and data = JNull]
  note i4 = generateTriviaQuestion_accepts_iff [where E = sample_engine and out = "Responded ?r4"
      and r = ?r4 and data = ?d4]
  from i1 a have 1: "generateTriviaQuestion sample_engine (Responded ?r1) = Inr sample_question"
    by blast
  from i2 n2 have "generateTriviaQuestion sample_engine (Responded ?r2) =
          Inl (''Could not load question. '' @
               (if ?d2 = JNull then nullRead sample_engine ''question''
                else if (\<exists>t. property ?d2 ''question'' = Some (JStr t))
                        \<and> property ?d2 ''options'' = Some JNull
                     then nullRead sample_engine ''A''
                else ''The API returned data in an unexpected format.''))"
    by simp
  then have 2: "generateTriviaQuestion sample_engine (Responded ?r2)
     = Inl ''Could not load question. The API returned data in an unexpected format.''"
    by (simp add: sample_question_def)
  from i3 n3 have "generateTriviaQuestion sample_engine (Responded ?r3) =
          Inl (''Could not load question. '' @
               (if JNull = JNull then nullRead sample_engine ''question''
                else if (\<exists>t. property JNull ''question'' = Some (JStr t))
                        \<and> property JNull ''options'' = Some JNull
                     then nullRead sample_engine ''A''
                else ''The API returned data in an unexpected format.''))"
    by simp
  then have 3: "generateTriviaQuestion sample_engine (Responded ?r3)
     = Inl ''Could not load question. Cannot read properties of null''"
    by (simp add: sample_engine_def)
  from i4 n4 have "generateTriviaQuestion sample_engine (Responded ?r4) =
          Inl (''Could not load question. '' @
               (if ?d4 = JNull then nullRead sample_engine ''question''
                else if (\<exists>t. property ?d4 ''question'' = Some (JStr t))
                        \<and> property ?d4 ''options'' = Some JNull
                     then nullRead sample_engine ''A''
                else ''The API returned data in an unexpected format.''))"
    by simp
  then have 4: "generateTriviaQuestion sample_engine (Responded ?r4)
     = Inl ''Could not load question. Cannot read properties of null''"
    by (simp add: sample_engine_def)
  from 1 2 3 4 show ?thesis by blast
qed

text \<open>
  The claim as stated fails: a body with an empty prompt is accepted, and so is one whose
  options are a number, a boolean, an array and an object.
\<close>

theorem empty_prompt_accepted_counterexample:
  "generateTriviaQuestion sample_engine
      (Responded \<lparr>ok = True, status = 200,
         body = Inr (JObj [(''question'', JStr ''''),
                           (''options'', JObj [(''A'', JStr ''3''), (''B'', JStr ''4''),
                                               (''C'', JStr ''5''), (''D'', JStr ''6'')]),
                           (''correctAnswer'', JStr ''B'')])\<rparr>)
     = Inr \<lparr>question_text = '''',
            options = JObj [(''A'', JStr ''3''), (''B'', JStr ''4''),
                            (''C'', JStr ''5''), (''D'', JStr ''6'')],
            correctAnswer = B\<rparr>
   \<and> generateTriviaQuestion sample_engine
      (Responded \<lparr>ok = True, status = 200,
         body = Inr (JObj [(''question'', JStr ''2+2?''),
                           (''options'', JObj [(''A'', JNum 3), (''B'', JBool True),
                                               (''C'', JArr []), (''D'', JObj [])]),
                           (''correctAnswer'', JStr ''B'')])\<rparr>)
     = Inr \<lparr>question_text = ''2+2?'',
            options = JObj [(''A'', JNum 3), (''B'', JBool True),
                            (''C'', JArr []), (''D'', JObj [])],
            correctAnswer = B\<rparr>"
  by (simp add: generateTriviaQuestion_def tryBlock_def checkShape_def typeof_object_def
        truthy_prop_def answerKey_of_def)

section \<open>Responses that are not a success\<close>




section \<open>Results that arrive late\<close>

text \<open>
  C8, as amended. The controller applies every result when it arrives, whatever was issued
  since. Of two requests in flight, the one that settles last with a question sets the
  question held in the state, restarts the countdown and ends loading, and leaves the error
  as it is; one that settles last with an error sets the error message and leaves the
  question set by the other. With a category and a difficulty selected, the last question
  is the one shown when no error is set; when the other request failed before, its error
  message stays and the error view is shown in place of the question, whose timer runs if
  the round is not answered.
\<close>

theorem last_settled_fetch_wins:
  assumes "n < length (inflight w)"
    and "m < length (inflight (transition (FetchSettled n r) w))"
  shows "question (app (transition (FetchSettled m (Inr q))
                         (transition (FetchSettled n r) w))) = Some q
     \<and> timeLeft (app (transition (FetchSettled m (Inr q))
                         (transition (FetchSettled n r) w))) = TIME_LIMIT
     \<and> \<not> isLoading (app (transition (FetchSettled m (Inr q))
                         (transition (FetchSettled n r) w)))
     \<and> question (app (transition (FetchSettled m (Inl e))
                         (transition (FetchSettled n r) w)))
         = question (app (transition (FetchSettled n r) w))
     \<and> error (app (transition (FetchSettled m (Inl e))
                         (transition (FetchSettled n r) w)))
         = Some ''Failed to generate a new question. Please try again.''
     \<and> error (app (transition (FetchSettled m (Inr q))
                         (transition (FetchSettled n r) w)))
         = error (app (transition (FetchSettled n r) w))
     \<and> renderContent (app (transition (FetchSettled m (Inr q))
                         (transition (FetchSettled n r) w))) =
         (if \<not> truthy (category (app (transition (FetchSettled n r) w)))
          then CategorySelectorView
          else if difficulty (app (transition (FetchSettled n r) w)) = None
          then DifficultySelectorView
          else if truthy (error (app (transition (FetchSettled n r) w)))
          then ErrorView (the (error (app (transition (FetchSettled n r) w))))
          else QuizCardView q)
     \<and> ((\<exists>e'. r = Inl e') \<and> truthy (category (app w)) \<and> difficulty (app w) \<noteq> None \<longrightarrow>
          renderContent (app (transition (FetchSettled m (Inr q))
                         (transition (FetchSettled n r) w)))
            = ErrorView ''Failed to generate a new question. Please try again.''
          \<and> timerEffect (app (transition (FetchSettled m (Inr q))
                         (transition (FetchSettled n r) w)))
            = (if isAnswered (app (transition (FetchSettled n r) w)) then NoTimer
               else Interval))"
proof -
  let ?w1 = "transition (FetchSettled n r) w"
  let ?w2 = "transition (FetchSettled m (Inr q)) ?w1"
  have a: "app ?w2 = (app ?w1)\<lparr>question := Some q, timeLeft := TIME_LIMIT, isLoading := False\<rparr>"
    using assms(2) by (simp add: transition_FetchSettled_Inr)
  have b: "question (app (transition (FetchSettled m (Inl e)) ?w1)) = question (app ?w1)
      \<and> error (app (transition (FetchSettled m (Inl e)) ?w1))
         = Some ''Failed to generate a new question. Please try again.''"
    using transition_FetchSettled_Inl_cells [OF assms(2)] by blast
  have c: "renderContent (app ?w2) =
         (if \<not> truthy (category (app ?w1)) then CategorySelectorView
          else if difficulty (app ?w1) = None then DifficultySelectorView
          else if truthy (error (app ?w1)) then ErrorView (the (error (app ?w1)))
          else QuizCardView q)"
    using assms(2) by (rule renderContent_after_success)
  have d: "(\<exists>e'. r = Inl e') \<and> truthy (category (app w)) \<and> difficulty (app w) \<noteq> None \<longrightarrow>
          renderContent (app ?w2)
            = ErrorView ''Failed to generate a new question. Please try again.''
          \<and> timerEffect (app ?w2) = (if isAnswered (app ?w1) then NoTimer else Interval)"
  proof
    assume h: "(\<exists>e'. r = Inl e') \<and> truthy (category (app w)) \<and> difficulty (app w) \<noteq> None"
    then obtain e' where r: "r = Inl e'" by blast
    from transition_FetchSettled_Inl_cells [OF assms(1), of e'] h r
    have f: "error (app ?w1) = Some ''Failed to generate a new question. Please try again.''"
      "truthy (category (app ?w1))" "difficulty (app ?w1) \<noteq> None"
      by simp_all
    have "renderContent (app ?w2)
            = ErrorView ''Failed to generate a new question. Please try again.''"
      using f by (simp add: c truthy_def)
    moreover have "timerEffect (app ?w2) = (if isAnswered (app ?w1) then NoTimer else Interval)"
      by (simp add: a timerEffect_def TIME_LIMIT_def)
    ultimately show "renderContent (app ?w2)
            = ErrorView ''Failed to generate a new question. Please try again.''
          \<and> timerEffect (app ?w2) = (if isAnswered (app ?w1) then NoTimer else Interval)"
      by blast
  qed
  have a1: "question (app ?w2) = Some q" and a2: "timeLeft (app ?w2) = TIME_LIMIT"
    and a3: "\<not> isLoading (app ?w2)" and a4: "error (app ?w2) = error (app ?w1)"
    by (simp_all add: a)
  from a1 a2 a3 a4 b c d show ?thesis by blast
qed

text \<open>Two requests in flight, the second settling first: with a question, then the first
  question is shown; with an error, then the first question is held and the error is shown.\<close>

theorem last_settled_fetch_wins_witness:
  "question (app (transition (FetchSettled 0 (Inr sample_question))
      (transition (FetchSettled 1 (Inr hard_question)) two_in_flight))) = Some sample_question
   \<and> renderContent (app (transition (FetchSettled 0 (Inr sample_question))
      (transition (FetchSettled 1 (Inr hard_question)) two_in_flight)))
       = QuizCardView sample_question
   \<and> question (app (transition (FetchSettled 0 (Inr sample_question))
      (transition (FetchSettled 1 (Inl ''offline'')) two_in_flight))) = Some sample_question
   \<and> renderContent (app (transition (FetchSettled 0 (Inr sample_question))
      (transition (FetchSettled 1 (Inl ''offline'')) two_in_flight)))
       = ErrorView ''Failed to generate a new question. Please try again.''
   \<and> timerEffect (app (transition (FetchSettled 0 (Inr sample_question))
      (transition (FetchSettled 1 (Inl ''offline'')) two_in_flight))) = Interval"
proof -
  let ?a = "transition (FetchSettled 1 (Inr hard_question)) two_in_flight"
  let ?b = "transition (FetchSettled 1 (Inl ''offline'')) two_in_flight"
  have 1: "1 < length (inflight two_in_flight)" by (simp add: two_in_flight_def)
  have ea: "?a = \<lparr>app = initial\<lparr>category := Some ''Science'', difficulty := Some Hard,
                                 question := Some hard_question\<rparr>,
                  inflight = [(Easy, ''Science'')]\<rparr>"
    by (simp add: two_in_flight_def model_defs)
  have eb: "?b = \<lparr>app = initial\<lparr>category := Some ''Science'', difficulty := Some Hard,
                   error := Some ''Failed to generate a new question. Please try again.''\<rparr>,
                  inflight = [(Easy, ''Science'')]\<rparr>"
    by (simp add: two_in_flight_def model_defs)
  have 2: "0 < length (inflight ?a)" using ea by simp
  have 3: "0 < length (inflight ?b)" using eb by simp
  have g: "truthy (category (app two_in_flight)) \<and> difficulty (app two_in_flight) \<noteq> None"
    by (simp add: two_in_flight_def truthy_def)
  note s = last_settled_fetch_wins [OF 1 2, where q = sample_question]
  note f = last_settled_fetch_wins [OF 1 3, where q = sample_question]
  from s have s1: "question (app (transition (FetchSettled 0 (Inr sample_question)) ?a))
      = Some sample_question" by blast
  from s have "renderContent (app (transition (FetchSettled 0 (Inr sample_question)) ?a)) =
         (if \<not> truthy (category (app ?a)) then CategorySelectorView
          else if difficulty (app ?a) = None then DifficultySelectorView
          else if truthy (error (app ?a)) then ErrorView (the (error (app ?a)))
          else QuizCardView sample_question)" by blast
  then have s2: "renderContent (app (transition (FetchSettled 0 (Inr sample_question)) ?a))
      = QuizCardView sample_question"
    using ea by (simp add: truthy_def initial_def)
  from f have f1: "question (app (transition (FetchSettled 0 (Inr sample_question)) ?b))
      = Some sample_question" by blast
  from f g have f2: "renderContent (app (transition (FetchSettled 0 (Inr sample_question)) ?b))
      = ErrorView ''Failed to generate a new question. Please try again.''"
    and f3: "timerEffect (app (transition (FetchSettled 0 (Inr sample_question)) ?b))
      = (if isAnswered (app ?b) then NoTimer else Interval)"
    by blast+
  from f3 have f4: "timerEffect (app (transition (FetchSettled 0 (Inr sample_question)) ?b))
      = Interval" using eb by (simp add: initial_def)
  from s1 s2 f1 f2 f4 show ?thesis by blast
qed

text \<open>
  The claim as stated fails: the difficulty is changed from Easy to Hard while the Easy
  request is in flight; the Hard question arrives first, the Easy question last, and the
  state ends with the Easy question under difficulty Hard.
\<close>

theorem stale_fetch_overwrites_counterexample:
  "run [CategorySelect ''Science'', DifficultySelect Easy, ChangeDifficulty,
        DifficultySelect Hard] init_world
     = Some \<lparr>app = initial\<lparr>category := Some ''Science'', difficulty := Some Hard,
                            isLoading := True\<rparr>,
             inflight = [(Easy, ''Science''), (Hard, ''Science'')]\<rparr>
   \<and> run [CategorySelect ''Science'', DifficultySelect Easy, ChangeDifficulty,
          DifficultySelect Hard, FetchSettled 1 (Inr hard_question),
          FetchSettled 0 (Inr sample_question)] init_world
     = Some \<lparr>app = initial\<lparr>category := Some ''Science'', difficulty := Some Hard,
                            question := Some sample_question\<rparr>,
             inflight = []\<rparr>
   \<and> sample_question \<noteq> hard_question"
  by (simp add: model_defs sample_question_def hard_question_def)

section \<open>The service worker and API requests\<close>

text \<open>
  C9. For a GET request whose URL contains \<open>/api/\<close> the listener responds with what the
  network returns, leaves the cache storage as it is and makes no call but the network fetch.
  A cache look-up or a cache store is made, and the storage changes, only for a GET request
  whose URL does not contain \<open>/api/\<close>; every such request starts with the look-up.
\<close>

theorem api_requests_bypass_cache:
  "(http_method req = ''GET'' \<and> str_includes (url req) ''/api/'' \<longrightarrow>
      fetch_listener net caches req = (RespondWith (net req), caches, [NetworkFetch (url req)]))
   \<and> (\<forall>c \<in> set (snd (snd (fetch_listener net caches req))).
        (\<exists>u. c = CacheMatch u) \<or> (\<exists>n u. c = CachePut n u) \<longrightarrow>
          http_method req = ''GET'' \<and> \<not> str_includes (url req) ''/api/'')
   \<and> (fst (snd (fetch_listener net caches req)) \<noteq> caches \<longrightarrow>
        http_method req = ''GET'' \<and> \<not> str_includes (url req) ''/api/'')
   \<and> (http_method req = ''GET'' \<and> \<not> str_includes (url req) ''/api/'' \<longrightarrow>
        hd (snd (snd (fetch_listener net caches req))) = CacheMatch (url req))
   \<and> (str_includes (url req) ''/api/'' \<longleftrightarrow> (\<exists>p q. url req = p @ ''/api/'' @ q))"
proof -
  have 1: "http_method req = ''GET'' \<and> str_includes (url req) ''/api/'' \<longrightarrow>
      fetch_listener net caches req = (RespondWith (net req), caches, [NetworkFetch (url req)])"
    by (simp add: fetch_listener_def)
  have 2: "\<forall>c \<in> set (snd (snd (fetch_listener net caches req))).
        (\<exists>u. c = CacheMatch u) \<or> (\<exists>n u. c = CachePut n u) \<longrightarrow>
          http_method req = ''GET'' \<and> \<not> str_includes (url req) ''/api/''"
    by (auto simp: fetch_listener_def split: option.splits if_splits)
  have 3: "fst (snd (fetch_listener net caches req)) \<noteq> caches \<longrightarrow>
        http_method req = ''GET'' \<and> \<not> str_includes (url req) ''/api/''"
    by (auto simp: fetch_listener_def split: option.splits if_splits)
  have 4: "http_method req = ''GET'' \<and> \<not> str_includes (url req) ''/api/'' \<longrightarrow>
        hd (snd (snd (fetch_listener net caches req))) = CacheMatch (url req)"
    by (auto simp: fetch_listener_def split: option.splits if_splits)
  have 5: "str_includes (url req) ''/api/'' \<longleftrightarrow> (\<exists>p q. url req = p @ ''/api/'' @ q)"
    by (rule str_includes_iff)
  from 1 2 3 4 5 show ?thesis by blast
qed

text \<open>An API URL that the cache holds is answered from the network all the same.\<close>

theorem api_requests_bypass_cache_witness:
  "fetch_listener (\<lambda>r. Some \<lparr>sw_status = 200, sw_body = ''fresh''\<rparr>)
      [(CACHE_NAME, [''/api/trivia'' \<mapsto> \<lparr>sw_status = 200, sw_body = ''stale''\<rparr>])]
      \<lparr>http_method = ''GET'', url = ''/api/trivia''\<rparr>
    = (RespondWith (Some \<lparr>sw_status = 200, sw_body = ''fresh''\<rparr>),
       [(CACHE_NAME, [''/api/trivia'' \<mapsto> \<lparr>sw_status = 200, sw_body = ''stale''\<rparr>])],
       [NetworkFetch ''/api/trivia''])"
proof -
  have i: "str_includes ''/api/trivia'' ''/api/''" by simp
  from api_requests_bypass_cache [of "\<lparr>http_method = ''GET'', url = ''/api/trivia''\<rparr>"
      "\<lambda>r. Some \<lparr>sw_status = 200, sw_body = ''fresh''\<rparr>"
      "[(CACHE_NAME, [''/api/trivia'' \<mapsto> \<lparr>sw_status = 200, sw_body = ''stale''\<rparr>])]"]
  show ?thesis using i by simp
qed

section \<open>Selection and the answered flag\<close>

text \<open>
  C10. In every state a session can reach, in both versions of the controller, a selection
  is present only when the round is answered, and every event keeps this, from any state
  that has it. A time-out marks the round answered and leaves the selection absent; an
  answer on an unanswered round sets both; the start of a fetch clears both; Change Category
  and Change Difficulty touch neither.
\<close>

theorem selection_implies_answered:
  "(run evs init_world = Some w \<longrightarrow> selectedAnswer (app w) \<noteq> None \<longrightarrow> isAnswered (app w))
   \<and> (selectedAnswer (run_p0 E evs0 initial_p0) \<noteq> None \<longrightarrow> isAnswered (run_p0 E evs0 initial_p0))
   \<and> ((selectedAnswer (app v) \<noteq> None \<longrightarrow> isAnswered (app v)) \<longrightarrow>
        selectedAnswer (app (transition ev v)) \<noteq> None \<longrightarrow> isAnswered (app (transition ev v)))
   \<and> ((selectedAnswer c \<noteq> None \<longrightarrow> isAnswered c) \<longrightarrow>
        selectedAnswer (transition_p0 E ev0 c) \<noteq> None \<longrightarrow> isAnswered (transition_p0 E ev0 c))
   \<and> (timerEffect s = Expire \<and> selectedAnswer s = None \<longrightarrow>
        isAnswered (timerEffect_run s) \<and> selectedAnswer (timerEffect_run s) = None)
   \<and> (\<not> isAnswered s \<longrightarrow>
        isAnswered (handleAnswerSelect k s) \<and> selectedAnswer (handleAnswerSelect k s) = Some k)
   \<and> (snd (fetchNewQuestion_begin s) \<noteq> None \<longrightarrow>
        selectedAnswer (fst (fetchNewQuestion_begin s)) = None
        \<and> \<not> isAnswered (fst (fetchNewQuestion_begin s)))
   \<and> (snd (fetchNewQuestion_begin_p0 c) \<noteq> None \<longrightarrow>
        selectedAnswer (fst (fetchNewQuestion_begin_p0 c)) = None
        \<and> \<not> isAnswered (fst (fetchNewQuestion_begin_p0 c)))
   \<and> selectedAnswer (resetCategory s) = selectedAnswer s
   \<and> isAnswered (resetCategory s) = isAnswered s
   \<and> selectedAnswer (resetDifficulty s) = selectedAnswer s
   \<and> isAnswered (resetDifficulty s) = isAnswered s"
proof -
  have 1: "run evs init_world = Some w \<longrightarrow> selectedAnswer (app w) \<noteq> None \<longrightarrow> isAnswered (app w)"
  proof
    assume r: "run evs init_world = Some w"
    have "sel_inv (app w)" using sel_inv_run [OF r sel_inv_initial] .
    then show "selectedAnswer (app w) \<noteq> None \<longrightarrow> isAnswered (app w)"
      by (auto simp: sel_inv_def)
  qed
  have "sel_inv initial_p0" by (simp add: sel_inv_def initial_p0_def)
  then have 2: "selectedAnswer (run_p0 E evs0 initial_p0) \<noteq> None \<longrightarrow> isAnswered (run_p0 E evs0 initial_p0)"
    using sel_inv_run_p0 [of initial_p0 E evs0] by (auto simp: sel_inv_def)
  have 3: "(selectedAnswer (app v) \<noteq> None \<longrightarrow> isAnswered (app v)) \<longrightarrow>
        selectedAnswer (app (transition ev v)) \<noteq> None \<longrightarrow> isAnswered (app (transition ev v))"
    using sel_inv_transition [of v ev] by (auto simp: sel_inv_def)
  have 4: "(selectedAnswer c \<noteq> None \<longrightarrow> isAnswered c) \<longrightarrow>
        selectedAnswer (transition_p0 E ev0 c) \<noteq> None \<longrightarrow> isAnswered (transition_p0 E ev0 c)"
    using sel_inv_transition_p0 [of c E ev0] by (auto simp: sel_inv_def)
  have 5: "timerEffect s = Expire \<and> selectedAnswer s = None \<longrightarrow>
        isAnswered (timerEffect_run s) \<and> selectedAnswer (timerEffect_run s) = None"
    by (simp add: timerEffect_run_def)
  have 6: "\<not> isAnswered s \<longrightarrow>
        isAnswered (handleAnswerSelect k s) \<and> selectedAnswer (handleAnswerSelect k s) = Some k"
    by (simp add: handleAnswerSelect_def Let_def)
  have 7: "snd (fetchNewQuestion_begin s) \<noteq> None \<longrightarrow>
        selectedAnswer (fst (fetchNewQuestion_begin s)) = None
        \<and> \<not> isAnswered (fst (fetchNewQuestion_begin s))"
    by (simp add: fetchNewQuestion_begin_def split: option.splits)
  have 8: "snd (fetchNewQuestion_begin_p0 c) \<noteq> None \<longrightarrow>
        selectedAnswer (fst (fetchNewQuestion_begin_p0 c)) = None
        \<and> \<not> isAnswered (fst (fetchNewQuestion_begin_p0 c))"
    by (simp add: fetchNewQuestion_begin_p0_def split: option.splits)
  have 9: "selectedAnswer (resetCategory s) = selectedAnswer s
   \<and> isAnswered (resetCategory s) = isAnswered s
   \<and> selectedAnswer (resetDifficulty s) = selectedAnswer s
   \<and> isAnswered (resetDifficulty s) = isAnswered s"
    by (simp add: resetCategory_def resetDifficulty_def)
  from 1 2 3 4 5 6 7 8 9 show ?thesis by blast
qed

text \<open>The sample round after its answer, then Change Difficulty, then a new fetch.\<close>

theorem selection_implies_answered_witness:
  "run (round_started @ replicate 5 TimerTick @ [AnswerSelect C]) init_world
     = Some answered_wrong
   \<and> selectedAnswer (app answered_wrong) \<noteq> None
   \<and> isAnswered (app answered_wrong)
   \<and> isAnswered (app (transition ChangeDifficulty answered_wrong))
   \<and> snd (fetchNewQuestion_begin (app answered_wrong)) \<noteq> None
   \<and> selectedAnswer (fst (fetchNewQuestion_begin (app answered_wrong))) = None
   \<and> \<not> isAnswered (fst (fetchNewQuestion_begin (app answered_wrong)))"
proof -
  have s: "selectedAnswer (app answered_wrong) \<noteq> None"
    by (simp add: answered_wrong_def)
  have t: "selectedAnswer (app (transition ChangeDifficulty answered_wrong)) \<noteq> None"
    by (simp add: answered_wrong_def awaiting_answer_def initial_def model_defs)
  have b: "snd (fetchNewQuestion_begin (app answered_wrong)) \<noteq> None"
    by (simp add: answered_wrong_def awaiting_answer_def initial_def fetchNewQuestion_begin_def)
  note i = selection_implies_answered
      [where evs = "round_started @ replicate 5 TimerTick @ [AnswerSelect C]"
      and w = answered_wrong and v = answered_wrong and ev = ChangeDifficulty
      and s = "app answered_wrong" and E = sample_engine and ?evs0.0 = "[]"
      and c = initial_p0 and ?ev0.0 = NextQuestion_p0 and k = A]
  from i run_answered_wrong s have 1: "isAnswered (app answered_wrong)" by blast
  from i 1 t have 2: "isAnswered (app (transition ChangeDifficulty answered_wrong))" by blast
  from i b have 3: "selectedAnswer (fst (fetchNewQuestion_begin (app answered_wrong))) = None
   \<and> \<not> isAnswered (fst (fetchNewQuestion_begin (app answered_wrong)))" by blast
  from run_answered_wrong s 1 2 b 3 show ?thesis by blast
qed

end
